theory Spec2Isabelle
  imports Main "HOL-Library.Signed_Division" "HOL-Library.Word"
begin

section \<open>Data model\<close>

text \<open>
  The nullable column types of the store (package \<open>null\<close>): a value together with a
  validity flag. \<open>IsZero\<close> is the negation of the flag.
\<close>

record null_String =
  String :: string
  ValidS :: bool

record null_Int64 =
  Int64 :: int
  ValidI :: bool

definition null_StringFrom :: "string \<Rightarrow> null_String" where
  "null_StringFrom s = \<lparr>String = s, ValidS = True\<rparr>"

definition null_String_null :: null_String where
  "null_String_null = \<lparr>String = [], ValidS = False\<rparr>"

definition null_Int64From :: "int \<Rightarrow> null_Int64" where
  "null_Int64From i = \<lparr>Int64 = i, ValidI = True\<rparr>"

definition null_NewInt64 :: "int \<Rightarrow> bool \<Rightarrow> null_Int64" where
  "null_NewInt64 i v = \<lparr>Int64 = i, ValidI = v\<rparr>"

definition IsZeroS :: "null_String \<Rightarrow> bool" where
  "IsZeroS s = (\<not> ValidS s)"

definition IsZeroI :: "null_Int64 \<Rightarrow> bool" where
  "IsZeroI i = (\<not> ValidI i)"

text \<open>The row of table \<open>vins\<close> (the generated model \<open>dbmodels.Vin\<close>), one per VIN.\<close>

record dbVin =
  Vin :: string
  OnboardingStatus :: int
  VehicleTokenID :: null_Int64
  SyntheticTokenID :: null_Int64
  WalletIndex :: null_Int64
  DeviceDefinitionID :: null_String
  ExternalID :: null_String
  ConnectionStatus :: null_String
  DisconnectionStatus :: null_String
  OperationErrorType :: null_String
  OperationErrorCode :: null_String
  OperationErrorDescription :: null_String

text \<open>The Go zero value of a row with the two fields a composite literal sets.\<close>

definition zeroVin :: "string \<Rightarrow> int \<Rightarrow> dbVin" where
  "zeroVin v s =
     \<lparr>Vin = v, OnboardingStatus = s,
      VehicleTokenID = null_NewInt64 0 False, SyntheticTokenID = null_NewInt64 0 False,
      WalletIndex = null_NewInt64 0 False,
      DeviceDefinitionID = null_String_null, ExternalID = null_String_null,
      ConnectionStatus = null_String_null, DisconnectionStatus = null_String_null,
      OperationErrorType = null_String_null, OperationErrorCode = null_String_null,
      OperationErrorDescription = null_String_null\<rparr>"

section \<open>Lifecycle status codes and predicates (status.go)\<close>

definition OnboardingStatusSubmitUnknown :: int where "OnboardingStatusSubmitUnknown = 0"
definition OnboardingStatusDecodingUnknown :: int where "OnboardingStatusDecodingUnknown = 10"
definition OnboardingStatusVendorValidationUnknown :: int where "OnboardingStatusVendorValidationUnknown = 20"
definition OnboardingStatusVendorValidationFailure :: int where "OnboardingStatusVendorValidationFailure = 22"
definition OnboardingStatusVendorValidationSuccess :: int where "OnboardingStatusVendorValidationSuccess = 23"
definition OnboardingStatusMintSubmitUnknown :: int where "OnboardingStatusMintSubmitUnknown = 30"
definition OnboardingStatusConnectFailure :: int where "OnboardingStatusConnectFailure = 42"
definition OnboardingStatusMintSuccess :: int where "OnboardingStatusMintSuccess = 53"
definition OnboardingStatusDisconnectSubmitUnknown :: int where "OnboardingStatusDisconnectSubmitUnknown = 60"
definition OnboardingStatusDisconnectUnknown :: int where "OnboardingStatusDisconnectUnknown = 70"
definition OnboardingStatusDisconnectFailure :: int where "OnboardingStatusDisconnectFailure = 72"
definition OnboardingStatusDisconnectSuccess :: int where "OnboardingStatusDisconnectSuccess = 73"
definition OnboardingStatusBurnSDFailure :: int where "OnboardingStatusBurnSDFailure = 82"
definition OnboardingStatusBurnSDSuccess :: int where "OnboardingStatusBurnSDSuccess = 83"
definition OnboardingStatusBurnVehicleFailure :: int where "OnboardingStatusBurnVehicleFailure = 102"
definition OnboardingStatusBurnVehicleSuccess :: int where "OnboardingStatusBurnVehicleSuccess = 103"

text \<open>
  Go's \<open>%\<close> on \<open>int\<close> truncates towards zero, so the remainder has the sign of the
  dividend: that is \<open>smod\<close>, not HOL's \<open>mod\<close>.
\<close>

definition IsVerified :: "int \<Rightarrow> bool" where
  "IsVerified status = (status \<ge> OnboardingStatusVendorValidationSuccess)"

definition IsMinted :: "int \<Rightarrow> bool" where
  "IsMinted status = (status = OnboardingStatusMintSuccess)"

definition IsDisconnected :: "int \<Rightarrow> bool" where
  "IsDisconnected status = (status = OnboardingStatusBurnSDSuccess)"

definition IsFailure :: "int \<Rightarrow> bool" where
  "IsFailure status = (status smod 10 = 2)"

definition IsPending :: "int \<Rightarrow> bool" where
  "IsPending status = (status > 0 \<and> status < OnboardingStatusMintSuccess)"

definition IsMintPending :: "int \<Rightarrow> bool" where
  "IsMintPending status =
     (status > OnboardingStatusMintSubmitUnknown \<and> status < OnboardingStatusMintSuccess)"

definition IsDisconnectPending :: "int \<Rightarrow> bool" where
  "IsDisconnectPending status =
     ((status > OnboardingStatusDisconnectSubmitUnknown \<and> status < OnboardingStatusBurnSDSuccess)
      \<and> \<not> IsFailure status)"

section \<open>Gate predicates of the controller\<close>

text \<open>The argument is a pointer in the source: \<open>None\<close> is \<open>nil\<close>.\<close>

definition canSubmitVerificationJob :: "dbVin option \<Rightarrow> bool" where
  "canSubmitVerificationJob record =
     (case record of
        None \<Rightarrow> False
      | Some r \<Rightarrow>
          (let verified = IsVerified (OnboardingStatus r);
               failed = IsFailure (OnboardingStatus r);
               pending = IsPending (OnboardingStatus r)
           in \<not> verified \<and> (failed \<or> \<not> pending)))"

definition canSubmitMintingJob :: "dbVin option \<Rightarrow> bool" where
  "canSubmitMintingJob record =
     (case record of
        None \<Rightarrow> False
      | Some r \<Rightarrow>
          (let minted = IsMinted (OnboardingStatus r);
               burned = IsDisconnected (OnboardingStatus r);
               failed = IsFailure (OnboardingStatus r);
               failedConnection = (String (ConnectionStatus r) = ''failed'');
               pending = (IsMintPending (OnboardingStatus r)
                          \<or> IsDisconnectPending (OnboardingStatus r))
           in (minted \<and> failedConnection) \<or> ((\<not> minted \<or> burned) \<and> (failed \<or> \<not> pending))))"

text \<open>
  The verify gate in the words of the specification:
  \<open>record = \<emptyset> \<or> (\<not> is_verified \<and> (is_failure \<or> \<not> is_pending))\<close>.
\<close>

definition verify_gate_spec :: "dbVin option \<Rightarrow> bool" where
  "verify_gate_spec record =
     (case record of
        None \<Rightarrow> True
      | Some r \<Rightarrow> \<not> IsVerified (OnboardingStatus r)
            \<and> (IsFailure (OnboardingStatus r) \<or> \<not> IsPending (OnboardingStatus r)))"

section \<open>Errors, outcomes and the store\<close>

text \<open>
  Go error values. \<open>errors.Is\<close> against a sentinel is equality with that sentinel; an
  error made by \<open>errors.New\<close> or \<open>fmt.Errorf\<close> at the point of failure is a fresh
  value \<open>Err msg\<close>, never equal to a sentinel.
\<close>

datatype error = ErrVehicleNotFound | ErrNoRows | Err string

text \<open>
  How a call ends: it returns, it panics (deferred calls still run), or the runtime
  aborts the process with a fatal error (nothing runs afterwards).
\<close>

datatype 'a outcome = Returned 'a | Panicked | Fatal

text \<open>
  Table \<open>vins\<close> is a list of rows. A failing database is part of the environment: the
  fault says which kind of database call fails.
\<close>

type_synonym store = "dbVin list"

datatype db_fault = NoFault | BeginTxFails | QueryFails | ExecFails | CommitFails

datatype column =
    ColOnboardingStatus | ColVehicleTokenID | ColSyntheticTokenID | ColWalletIndex
  | ColDeviceDefinitionID | ColExternalID | ColConnectionStatus | ColDisconnectionStatus
  | ColOperationErrorType | ColOperationErrorCode | ColOperationErrorDescription

fun set_column :: "dbVin \<Rightarrow> column \<Rightarrow> dbVin \<Rightarrow> dbVin" where
  "set_column r ColOnboardingStatus row = row\<lparr>OnboardingStatus := OnboardingStatus r\<rparr>"
| "set_column r ColVehicleTokenID row = row\<lparr>VehicleTokenID := VehicleTokenID r\<rparr>"
| "set_column r ColSyntheticTokenID row = row\<lparr>SyntheticTokenID := SyntheticTokenID r\<rparr>"
| "set_column r ColWalletIndex row = row\<lparr>WalletIndex := WalletIndex r\<rparr>"
| "set_column r ColDeviceDefinitionID row = row\<lparr>DeviceDefinitionID := DeviceDefinitionID r\<rparr>"
| "set_column r ColExternalID row = row\<lparr>ExternalID := ExternalID r\<rparr>"
| "set_column r ColConnectionStatus row = row\<lparr>ConnectionStatus := ConnectionStatus r\<rparr>"
| "set_column r ColDisconnectionStatus row = row\<lparr>DisconnectionStatus := DisconnectionStatus r\<rparr>"
| "set_column r ColOperationErrorType row = row\<lparr>OperationErrorType := OperationErrorType r\<rparr>"
| "set_column r ColOperationErrorCode row = row\<lparr>OperationErrorCode := OperationErrorCode r\<rparr>"
| "set_column r ColOperationErrorDescription row =
     row\<lparr>OperationErrorDescription := OperationErrorDescription r\<rparr>"

definition write_columns :: "column list \<Rightarrow> dbVin \<Rightarrow> dbVin \<Rightarrow> dbVin" where
  "write_columns cols r row = foldr (set_column r) cols row"

text \<open>
  \<open>record.Update(ctx, exec, boil.Whitelist(cols))\<close>: the listed columns of the row whose
  primary key is the record's VIN take the record's values.
\<close>

definition Update :: "column list \<Rightarrow> dbVin \<Rightarrow> store \<Rightarrow> store" where
  "Update cols r db = map (\<lambda>row. if Vin row = Vin r then write_columns cols r row else row) db"

text \<open>\<open>boil.Infer()\<close> for an update: every column but the primary key.\<close>

definition all_columns :: "column list" where
  "all_columns =
     [ColOnboardingStatus, ColVehicleTokenID, ColSyntheticTokenID, ColWalletIndex,
      ColDeviceDefinitionID, ColExternalID, ColConnectionStatus, ColDisconnectionStatus,
      ColOperationErrorType, ColOperationErrorCode, ColOperationErrorDescription]"

text \<open>\<open>Vins(VinWhere.Vin.EQ(v)).One\<close>: the row with that VIN, if any.\<close>

definition One_by_vin :: "string \<Rightarrow> store \<Rightarrow> dbVin option" where
  "One_by_vin v db = find (\<lambda>row. Vin row = v) db"

section \<open>Verify worker: vendor validation stage (verify.go)\<close>

record VendorCapabilityStatus =
  VIN :: string
  Status :: string

text \<open>
  The worker's environment: the setting read by the stage, the vendor's answer to
  \<open>Validate\<close>, and the state of the database.
\<close>

record verify_env =
  EnableVendorCapabilityCheck :: bool
  vendor_Validate :: "string list \<Rightarrow> error + VendorCapabilityStatus list"
  verify_fault :: db_fault

text \<open>
  \<open>VerifyWorker.update\<close>: \<open>record.Update\<close> on the writer with inferred columns, outside
  any transaction; its error is logged and dropped.
\<close>

definition verify_update :: "verify_env \<Rightarrow> dbVin \<Rightarrow> store \<Rightarrow> store" where
  "verify_update env r db = (if verify_fault env = ExecFails then db else Update all_columns r db)"

text \<open>
  The body of \<open>ValidateWithExternalVendorAndUpdate\<close>: the outcome and the record as it
  stands when the body is left. Indexing \<open>validation[0]\<close> on an empty answer panics.
\<close>

definition ValidateWithExternalVendor_body ::
  "verify_env \<Rightarrow> dbVin \<Rightarrow> string \<Rightarrow> error option outcome \<times> dbVin" where
  "ValidateWithExternalVendor_body env record0 argsVIN =
     (let record = record0\<lparr>OnboardingStatus := OnboardingStatusVendorValidationUnknown\<rparr> in
      if EnableVendorCapabilityCheck env then
        (case vendor_Validate env [argsVIN] of
           Inl err \<Rightarrow>
             (Returned (Some err),
              record\<lparr>OnboardingStatus := OnboardingStatusVendorValidationFailure\<rparr>)
         | Inr validation \<Rightarrow>
             (case validation of
                [] \<Rightarrow> (Panicked, record)
              | v0 # _ \<Rightarrow>
                  if Status v0 = ''notCapable '' \<or> Status v0 = ''noDataFound'' then
                    (Returned (Some (Err ''vin validation failed'')),
                     record\<lparr>OnboardingStatus := OnboardingStatusVendorValidationFailure\<rparr>)
                  else
                    (Returned None,
                     record\<lparr>OnboardingStatus := OnboardingStatusVendorValidationSuccess\<rparr>)))
      else
        (Returned None,
         record\<lparr>OnboardingStatus := OnboardingStatusVendorValidationSuccess\<rparr>))"

text \<open>
  The stage with its deferred \<open>update\<close>, which runs when the body returns and when it
  panics: outcome, record on exit, store on exit.
\<close>

definition ValidateWithExternalVendorAndUpdate ::
  "verify_env \<Rightarrow> store \<Rightarrow> dbVin \<Rightarrow> string \<Rightarrow> error option outcome \<times> dbVin \<times> store" where
  "ValidateWithExternalVendorAndUpdate env db record argsVIN =
     (case ValidateWithExternalVendor_body env record argsVIN of
        (out, record') \<Rightarrow> (out, record', verify_update env record' db))"

section \<open>Disconnect and delete workers: burn stages\<close>

text \<open>
  A user operation and the receipt of its submission are opaque payloads of the
  transaction facility, which is part of the environment: \<open>SendSignedUserOperation\<close>,
  and the two result readers, which give the burned token id (with an error they give a
  nil result).
\<close>

type_synonym UserOperation = string
type_synonym OperationResult = string

record tr_env =
  SendSignedUserOperation :: "UserOperation \<Rightarrow> error + OperationResult"
  GetBurnSDByOwnerResult :: "OperationResult \<Rightarrow> error + int"
  GetBurnVehicleByOwnerResult :: "OperationResult \<Rightarrow> error + int"
  tr_fault :: db_fault

text \<open>
  The worker's mutex \<open>m\<close> as a flag (held or not). \<open>Unlock\<close> of a mutex that is not held
  is a fatal runtime error. The mutex is free when a stage is entered; other goroutines
  contending for it are outside this sequential model.
\<close>

definition Lock :: "bool \<Rightarrow> bool" where
  "Lock m = True"

definition Unlock :: "bool \<Rightarrow> bool option" where
  "Unlock m = (if m then Some False else None)"

text \<open>
  \<open>DisconnectWorker.update\<close> and \<open>DeleteWorker.update\<close>: a transaction is begun and
  committed, but \<open>record.Update\<close> runs on the writer itself, so it is applied unless
  beginning the transaction or the statement fails. Callers drop the returned error.
\<close>

definition worker_update :: "tr_env \<Rightarrow> column list \<Rightarrow> dbVin \<Rightarrow> store \<Rightarrow> store" where
  "worker_update env cols r db =
     (if tr_fault env = BeginTxFails \<or> tr_fault env = ExecFails then db else Update cols r db)"

text \<open>
  The part of \<open>BurnSDAndUpdate\<close> from the last \<open>w.m.Unlock()\<close> on. It is reached after a
  successful read of the result and, because the error branch of that read does not
  return, also after a failed one (then \<open>result\<close> is nil and the final log line
  dereferences it).
\<close>

definition BurnSD_tail ::
  "bool \<Rightarrow> int option \<Rightarrow> dbVin \<Rightarrow> (dbVin option \<times> error option) outcome \<times> dbVin" where
  "BurnSD_tail m result record =
     (case Unlock m of
        None \<Rightarrow> (Fatal, record)
      | Some _ \<Rightarrow>
          (let record' = record\<lparr>WalletIndex := null_NewInt64 0 False,
                                 SyntheticTokenID := null_NewInt64 0 False,
                                 OnboardingStatus := OnboardingStatusBurnSDSuccess\<rparr>
           in case result of
                None \<Rightarrow> (Panicked, record')
              | Some _ \<Rightarrow> (Returned (Some record', None), record')))"

text \<open>
  The body of \<open>BurnSDAndUpdate\<close>: outcome, record when the body is left, and the user
  operations handed to \<open>SendSignedUserOperation\<close>.
\<close>

definition BurnSD_body ::
  "tr_env \<Rightarrow> dbVin \<Rightarrow> UserOperation
     \<Rightarrow> (dbVin option \<times> error option) outcome \<times> dbVin \<times> UserOperation list" where
  "BurnSD_body env record uo =
     (let m = Lock False in
      case SendSignedUserOperation env uo of
        Inl err \<Rightarrow>
          (case Unlock m of
             None \<Rightarrow> (Fatal, record, [uo])
           | Some _ \<Rightarrow>
               (Returned (None, Some err),
                record\<lparr>OnboardingStatus := OnboardingStatusBurnSDFailure\<rparr>, [uo]))
      | Inr opResult \<Rightarrow>
          (case GetBurnSDByOwnerResult env opResult of
             Inl err \<Rightarrow>
               (case Unlock m of
                  None \<Rightarrow> (Fatal, record, [uo])
                | Some m' \<Rightarrow>
                    (case BurnSD_tail m' None
                            (record\<lparr>OnboardingStatus := OnboardingStatusBurnSDFailure\<rparr>) of
                       (out, record') \<Rightarrow> (out, record', [uo])))
           | Inr result \<Rightarrow>
               (case BurnSD_tail m (Some result) record of
                  (out, record') \<Rightarrow> (out, record', [uo]))))"

text \<open>
  The stage with its deferred \<open>update\<close> of the three whitelisted columns; a fatal error
  ends the process before any deferred call.
\<close>

definition BurnSDAndUpdate ::
  "tr_env \<Rightarrow> store \<Rightarrow> dbVin \<Rightarrow> UserOperation
     \<Rightarrow> (dbVin option \<times> error option) outcome \<times> dbVin \<times> store \<times> UserOperation list" where
  "BurnSDAndUpdate env db record uo =
     (case BurnSD_body env record uo of
        (out, record', sent) \<Rightarrow>
          (out, record',
           (case out of
              Fatal \<Rightarrow> db
            | _ \<Rightarrow> worker_update env
                     [ColOnboardingStatus, ColSyntheticTokenID, ColWalletIndex] record' db),
           sent))"

text \<open>\<open>BurnVehicleAndUpdate\<close> of the delete worker has the same shape.\<close>

definition BurnVehicle_tail ::
  "bool \<Rightarrow> int option \<Rightarrow> dbVin \<Rightarrow> (dbVin option \<times> error option) outcome \<times> dbVin" where
  "BurnVehicle_tail m result record =
     (case Unlock m of
        None \<Rightarrow> (Fatal, record)
      | Some _ \<Rightarrow>
          (let record' = record\<lparr>VehicleTokenID := null_NewInt64 0 False,
                                 OnboardingStatus := OnboardingStatusBurnVehicleSuccess\<rparr>
           in case result of
                None \<Rightarrow> (Panicked, record')
              | Some _ \<Rightarrow> (Returned (Some record', None), record')))"

definition BurnVehicle_body ::
  "tr_env \<Rightarrow> dbVin \<Rightarrow> UserOperation
     \<Rightarrow> (dbVin option \<times> error option) outcome \<times> dbVin \<times> UserOperation list" where
  "BurnVehicle_body env record uo =
     (let m = Lock False in
      case SendSignedUserOperation env uo of
        Inl err \<Rightarrow>
          (case Unlock m of
             None \<Rightarrow> (Fatal, record, [uo])
           | Some _ \<Rightarrow>
               (Returned (None, Some err),
                record\<lparr>OnboardingStatus := OnboardingStatusBurnVehicleFailure\<rparr>, [uo]))
      | Inr opResult \<Rightarrow>
          (case GetBurnVehicleByOwnerResult env opResult of
             Inl err \<Rightarrow>
               (case Unlock m of
                  None \<Rightarrow> (Fatal, record, [uo])
                | Some m' \<Rightarrow>
                    (case BurnVehicle_tail m' None
                            (record\<lparr>OnboardingStatus := OnboardingStatusBurnVehicleFailure\<rparr>) of
                       (out, record') \<Rightarrow> (out, record', [uo])))
           | Inr result \<Rightarrow>
               (case BurnVehicle_tail m (Some result) record of
                  (out, record') \<Rightarrow> (out, record', [uo]))))"

definition BurnVehicleAndUpdate ::
  "tr_env \<Rightarrow> store \<Rightarrow> dbVin \<Rightarrow> UserOperation
     \<Rightarrow> (dbVin option \<times> error option) outcome \<times> dbVin \<times> store \<times> UserOperation list" where
  "BurnVehicleAndUpdate env db record uo =
     (case BurnVehicle_body env record uo of
        (out, record', sent) \<Rightarrow>
          (out, record',
           (case out of
              Fatal \<Rightarrow> db
            | _ \<Rightarrow> worker_update env [ColOnboardingStatus, ColVehicleTokenID] record' db),
           sent))"

text \<open>
  \<open>GetVinRecord\<close> of the workers reads on the reader connection: a failing query or no
  row is an error.
\<close>

definition GetVinRecord :: "tr_env \<Rightarrow> store \<Rightarrow> string \<Rightarrow> error + dbVin" where
  "GetVinRecord env db vinToSearch =
     (if tr_fault env = QueryFails then Inl (Err ''query failed'')
      else case One_by_vin vinToSearch db of
             None \<Rightarrow> Inl ErrNoRows
           | Some vin \<Rightarrow> Inr vin)"

text \<open>
  \<open>DeleteWorker.Work\<close>: the job's outcome (the returned error, if any), the store on exit
  and the user operations submitted.
\<close>

definition DeleteWorker_Work ::
  "tr_env \<Rightarrow> store \<Rightarrow> string \<Rightarrow> UserOperation
     \<Rightarrow> error option outcome \<times> store \<times> UserOperation list" where
  "DeleteWorker_Work env db argsVIN uo =
     (case GetVinRecord env db argsVIN of
        Inl err \<Rightarrow> (Returned (Some err), db, [])
      | Inr record \<Rightarrow>
          if OnboardingStatus record < OnboardingStatusBurnSDSuccess then
            (Returned (Some (Err ''insufficient disconnect status'')), db, [])
          else if OnboardingStatus record = OnboardingStatusBurnVehicleSuccess then
            (Returned None, db, [])
          else if ValidI (SyntheticTokenID record) then
            (Returned (Some (Err ''sd not empty'')), db, [])
          else if ValidI (VehicleTokenID record) then
            (case BurnVehicleAndUpdate env db record uo of
               (Returned (_, Some err), _, db', sent) \<Rightarrow> (Returned (Some err), db', sent)
             | (Returned (_, None), _, db', sent) \<Rightarrow> (Returned None, db', sent)
             | (Panicked, _, db', sent) \<Rightarrow> (Panicked, db', sent)
             | (Fatal, _, db', sent) \<Rightarrow> (Fatal, db', sent))
          else (Returned None, db, []))"

section \<open>Vehicle store service (vehicle.go)\<close>

text \<open>
  Every method begins a transaction, runs its statement inside it and commits; the
  fault of the environment decides which of these fails. \<open>All\<close> gives an empty slice,
  not \<open>sql.ErrNoRows\<close>, when nothing matches.
\<close>

definition GetVehicleByVin :: "db_fault \<Rightarrow> store \<Rightarrow> string \<Rightarrow> error + dbVin" where
  "GetVehicleByVin fault db vehicleID =
     (if fault = BeginTxFails then Inl (Err ''begin transaction'')
      else if fault = QueryFails then Inl (Err ''query'')
      else case One_by_vin vehicleID db of
             None \<Rightarrow> Inl ErrVehicleNotFound
           | Some vin \<Rightarrow> Inr vin)"

definition GetVehiclesByVins :: "db_fault \<Rightarrow> store \<Rightarrow> string list \<Rightarrow> error + dbVin list" where
  "GetVehiclesByVins fault db vehicleIDs =
     (if fault = BeginTxFails then Inl (Err ''begin transaction'')
      else if fault = QueryFails then Inl (Err ''query'')
      else Inr (filter (\<lambda>row. Vin row \<in> set vehicleIDs) db))"

text \<open>
  \<open>GetVehicleByExternalID\<close> selects on column \<open>external_id\<close> (a null column never
  matches). When no row matches it returns a new error made by \<open>errors.New\<close>, which is
  not the sentinel \<open>ErrVehicleNotFound\<close>.
\<close>

definition GetVehicleByExternalID :: "db_fault \<Rightarrow> store \<Rightarrow> string \<Rightarrow> error + dbVin" where
  "GetVehicleByExternalID fault db externalID =
     (if fault = BeginTxFails then Inl (Err ''begin transaction'')
      else if fault = QueryFails then Inl (Err ''query'')
      else case find (\<lambda>row. ValidS (ExternalID row) \<and> String (ExternalID row) = externalID) db of
             None \<Rightarrow> Inl (Err ''vehicle not found'')
           | Some vin \<Rightarrow>
               if fault = CommitFails then Inl (Err ''commit'') else Inr vin)"

text \<open>
  \<open>errors.Is\<close> against a sentinel. The errors it is applied to in the modelled handlers
  are a sentinel or a value made by \<open>errors.New\<close>, which wraps nothing, so the test is
  equality.
\<close>

definition errors_Is :: "error \<Rightarrow> error \<Rightarrow> bool" where
  "errors_Is err target = (err = target)"

text \<open>
  \<open>vin.Upsert\<close> on conflict column \<open>vin\<close> with inferred columns: the row with the same
  VIN is replaced, or the record is appended. The table's unique constraints on
  \<open>vehicle_token_id\<close> and \<open>synthetic_token_id\<close> reject a non-null token id that another
  row holds.
\<close>

definition same_token :: "null_Int64 \<Rightarrow> null_Int64 \<Rightarrow> bool" where
  "same_token a b = (ValidI a \<and> ValidI b \<and> Int64 a = Int64 b)"

definition unique_violation :: "store \<Rightarrow> dbVin \<Rightarrow> bool" where
  "unique_violation db vin =
     list_ex (\<lambda>row. Vin row \<noteq> Vin vin \<and>
                (same_token (VehicleTokenID row) (VehicleTokenID vin)
                 \<or> same_token (SyntheticTokenID row) (SyntheticTokenID vin))) db"

definition Upsert :: "dbVin \<Rightarrow> store \<Rightarrow> store" where
  "Upsert vin db =
     (if list_ex (\<lambda>row. Vin row = Vin vin) db
      then map (\<lambda>row. if Vin row = Vin vin then vin else row) db
      else db @ [vin])"

definition InsertOrUpdateVin :: "db_fault \<Rightarrow> store \<Rightarrow> dbVin \<Rightarrow> error + store" where
  "InsertOrUpdateVin fault db vin =
     (if fault = BeginTxFails then Inl (Err ''begin transaction'')
      else if fault = ExecFails \<or> unique_violation db vin
        then Inl (Err ''failed to insert VIN record'')
      else if fault = CommitFails then Inl (Err ''commit'')
      else Inr (Upsert vin db))"

record OperationError =
  Code :: string
  Type :: string
  Description :: string

definition enrollment_columns :: "column list" where
  "enrollment_columns =
     [ColConnectionStatus, ColDisconnectionStatus, ColExternalID,
      ColOperationErrorType, ColOperationErrorCode, ColOperationErrorDescription]"

definition set_operation_error :: "OperationError option \<Rightarrow> dbVin \<Rightarrow> dbVin" where
  "set_operation_error err vinRecord =
     (case err of
        Some e \<Rightarrow>
          vinRecord\<lparr>OperationErrorType := null_StringFrom (Type e),
                    OperationErrorCode := null_StringFrom (Code e),
                    OperationErrorDescription := null_StringFrom (Description e)\<rparr>
      | None \<Rightarrow>
          vinRecord\<lparr>OperationErrorType := null_String_null,
                    OperationErrorCode := null_String_null,
                    OperationErrorDescription := null_String_null\<rparr>)"

text \<open>The returned error (if any) and the store after the call.\<close>

definition UpdateEnrollmentStatus ::
  "db_fault \<Rightarrow> store \<Rightarrow> string \<Rightarrow> string \<Rightarrow> string \<Rightarrow> OperationError option
     \<Rightarrow> error option \<times> store" where
  "UpdateEnrollmentStatus fault db vin status externalID err =
     (if fault = BeginTxFails then (Some (Err ''begin transaction''), db)
      else if fault = QueryFails then (Some (Err ''failed to fetch VIN record''), db)
      else case One_by_vin vin db of
        None \<Rightarrow> (Some (Err ''failed to fetch VIN record''), db)
      | Some vinRecord0 \<Rightarrow>
          (let vinRecord1 = vinRecord0\<lparr>ConnectionStatus := null_StringFrom status,
                                       ExternalID := null_StringFrom externalID\<rparr>;
               vinRecord2 = (if status = ''succeeded''
                             then vinRecord1\<lparr>DisconnectionStatus := null_String_null\<rparr>
                             else vinRecord1);
               vinRecord = set_operation_error err vinRecord2
           in if fault = ExecFails then (Some (Err ''failed to update VIN record''), db)
              else if fault = CommitFails then (Some (Err ''commit''), db)
              else (None, Update enrollment_columns vinRecord db)))"

definition UpdateUnenrollmentStatus ::
  "db_fault \<Rightarrow> store \<Rightarrow> string \<Rightarrow> string \<Rightarrow> OperationError option
     \<Rightarrow> error option \<times> store" where
  "UpdateUnenrollmentStatus fault db vin status err =
     (if fault = BeginTxFails then (Some (Err ''begin transaction''), db)
      else if fault = QueryFails then (Some (Err ''failed to fetch VIN record''), db)
      else case One_by_vin vin db of
        None \<Rightarrow> (Some (Err ''failed to fetch VIN record''), db)
      | Some vinRecord0 \<Rightarrow>
          (let vinRecord1 = vinRecord0\<lparr>DisconnectionStatus := null_StringFrom status\<rparr>;
               vinRecord2 = (if status = ''succeeded''
                             then vinRecord1\<lparr>ConnectionStatus := null_String_null,
                                             ExternalID := null_String_null\<rparr>
                             else vinRecord1);
               vinRecord = set_operation_error err vinRecord2
           in if fault = ExecFails then (Some (Err ''failed to update VIN record''), db)
              else if fault = CommitFails then (Some (Err ''commit''), db)
              else (None, Update enrollment_columns vinRecord db)))"

text \<open>The columns that the two calls are claimed to leave alone.\<close>

definition frame_columns ::
  "dbVin \<Rightarrow> string \<times> int \<times> null_Int64 \<times> null_Int64 \<times> null_Int64 \<times> null_String" where
  "frame_columns row =
     (Vin row, OnboardingStatus row, VehicleTokenID row, SyntheticTokenID row,
      WalletIndex row, DeviceDefinitionID row)"

definition error_columns :: "dbVin \<Rightarrow> null_String \<times> null_String \<times> null_String" where
  "error_columns row =
     (OperationErrorType row, OperationErrorCode row, OperationErrorDescription row)"

section \<open>Status views (status.go)\<close>

definition statusToString :: "(int \<times> string) list" where
  "statusToString =
     [
      (0, ''VerificationSubmitUnknown''), (1, ''VerificationSubmitPending''),
      (2, ''VerificationSubmitFailure''), (3, ''VerificationSubmitSuccess''),
      (10, ''DecodingUnknown''), (11, ''DecodingPending''),
      (12, ''DecodingFailure''), (13, ''DecodingSuccess''),
      (20, ''VendorValidationUnknown''), (21, ''VendorValidationPending''),
      (22, ''VendorValidationFailure''), (23, ''VendorValidationSuccess''),
      (30, ''MintSubmitUnknown''), (31, ''MintSubmitPending''),
      (32, ''MintSubmitFailure''), (33, ''MintSubmitSuccess''),
      (40, ''ConnectUnknown''), (41, ''ConnectPending''),
      (42, ''ConnectFailure''), (43, ''ConnectSuccess''),
      (50, ''MintUnknown''), (51, ''MintPending''),
      (52, ''MintFailure''), (53, ''MintSuccess''),
      (60, ''DisconnectSubmitUnknown''), (61, ''DisconnectSubmitPending''),
      (62, ''DisconnectSubmitFailure''), (63, ''DisconnectSubmitSuccess''),
      (70, ''DisconnectUnknown''), (71, ''DisconnectPending''),
      (72, ''DisconnectFailure''), (73, ''DisconnectSuccess''),
      (80, ''BurnSDUnknown''), (81, ''BurnSDPending''),
      (82, ''BurnSDFailure''), (83, ''BurnSDSuccess''),
      (90, ''DeleteSubmitUnknown''), (91, ''DeleteSubmitPending''),
      (92, ''DeleteSubmitFailure''), (93, ''DeleteSubmitSuccess''),
      (100, ''BurnVehicleUnknown''), (101, ''BurnVehiclePending''),
      (102, ''BurnVehicleFailure''), (103, ''BurnVehicleSuccess'')
     ]"

definition GetDetailedStatus :: "int \<Rightarrow> string" where
  "GetDetailedStatus status =
     (case map_of statusToString status of
        None \<Rightarrow> ''Unknown''
      | Some detailedStatus \<Rightarrow> detailedStatus)"

definition GetVerificationStatus :: "int \<Rightarrow> string" where
  "GetVerificationStatus status =
     (if IsVerified status then ''Success''
      else if IsFailure status then ''Failure''
      else if IsPending status then ''Pending''
      else ''Unknown'')"

section \<open>API controller\<close>

text \<open>
  \<open>strings.TrimSpace\<close> on the ASCII white space characters (tab, line feed, vertical
  tab, form feed, carriage return, blank); the multi-byte Unicode spaces are not
  modelled.
\<close>

definition isSpace :: "char \<Rightarrow> bool" where
  "isSpace c = (c \<in> set [CHR 0x09, CHR 0x0A, CHR 0x0B, CHR 0x0C, CHR 0x0D, CHR 0x20])"

definition TrimSpace :: "string \<Rightarrow> string" where
  "TrimSpace s = rev (dropWhile isSpace (rev (dropWhile isSpace s)))"

text \<open>The character class \<open>[A-HJ-NPR-Z0-9]\<close> of \<open>vinRegexp\<close>, by character code.\<close>

definition vinChar :: "char \<Rightarrow> bool" where
  "vinChar c =
     (let n = (of_char c :: nat)
      in (65 \<le> n \<and> n \<le> 72) \<or> (74 \<le> n \<and> n \<le> 78) \<or> n = 80
         \<or> (82 \<le> n \<and> n \<le> 90) \<or> (48 \<le> n \<and> n \<le> 57))"

definition vinRegexp_MatchString :: "string \<Rightarrow> bool" where
  "vinRegexp_MatchString s = (length s = 17 \<and> list_all vinChar s)"

text \<open>
  The controller's environment: the test-mode setting, the state of the database, and
  whether the job queue accepts a job.
\<close>

datatype job = VerifyArgs string string

record ctl_env =
  EnableVendorTestMode :: bool
  ctl_fault :: db_fault
  riverInsert :: "job \<Rightarrow> bool"

definition isValidVin :: "ctl_env \<Rightarrow> string \<Rightarrow> bool" where
  "isValidVin env vin =
     (if EnableVendorTestMode env then length vin = 17 else vinRegexp_MatchString vin)"

text \<open>\<open>slices.Compact\<close>: each run of consecutive equal elements becomes one element.\<close>

fun Compact :: "'a list \<Rightarrow> 'a list" where
  "Compact [] = []"
| "Compact [x] = [x]"
| "Compact (x # y # xs) = (if x = y then Compact (y # xs) else x # Compact (y # xs))"

text \<open>
  What a handler does to the outside, in order: a lookup in the store, a job handed to
  the queue, an upsert of a record.
\<close>

datatype effect = StoreLookup "string list" | Enqueue job | UpsertVin dbVin

text \<open>One entry of the response: VIN, status, details.\<close>

type_synonym VinStatus = "string \<times> string \<times> string"

text \<open>\<open>indexedVins\<close>: the map built by assigning each loaded row under its VIN.\<close>

definition indexVins :: "dbVin list \<Rightarrow> (string \<rightharpoonup> dbVin)" where
  "indexVins dbVins = map_of (rev (map (\<lambda>vin. (Vin vin, vin)) dbVins))"

text \<open>
  \<open>GetVerificationStatusForVins\<close>: the parsed query parameter (\<open>None\<close> when the parser
  fails) gives the HTTP status, the statuses of the body and the effects.
\<close>

definition GetVerificationStatusForVins ::
  "ctl_env \<Rightarrow> store \<Rightarrow> string list option \<Rightarrow> nat \<times> VinStatus list \<times> effect list" where
  "GetVerificationStatusForVins env db params =
     (case params of
        None \<Rightarrow> (400, [], [])
      | Some paramsVins \<Rightarrow>
          (let validVins = filter (isValidVin env) (map TrimSpace paramsVins) in
           if length validVins \<noteq> length paramsVins then (400, [], [])
           else
             (let compactedVins = Compact validVins in
              if length validVins \<noteq> length compactedVins then (400, [], [])
              else if length validVins > 0 then
                (case GetVehiclesByVins (ctl_fault env) db validVins of
                   Inl err \<Rightarrow>
                     if errors_Is err ErrVehicleNotFound
                     then (404, [], [StoreLookup validVins])
                     else (500, [], [StoreLookup validVins])
                 | Inr dbVins \<Rightarrow>
                     (200,
                      map (\<lambda>vin. case indexVins dbVins vin of
                                   None \<Rightarrow> (vin, ''Unknown'', ''Unknown'')
                                 | Some dbVin \<Rightarrow>
                                     (vin, GetVerificationStatus (OnboardingStatus dbVin),
                                      GetDetailedStatus (OnboardingStatus dbVin)))
                          validVins,
                      [StoreLookup validVins]))
              else (200, [], []))))"

text \<open>
  The loop of \<open>SubmitVerificationForVins\<close> over the validated VINs with their country
  codes: statuses and effects so far, the store, and the early return with 500 when the
  upsert fails.
\<close>

fun submitVerificationLoop ::
  "ctl_env \<Rightarrow> (string \<rightharpoonup> dbVin) \<Rightarrow> (string \<times> string) list \<Rightarrow> store
     \<Rightarrow> VinStatus list \<Rightarrow> effect list \<Rightarrow> nat \<times> VinStatus list \<times> effect list \<times> store" where
  "submitVerificationLoop env indexedDbVins [] db vinStatuses effs =
     (200, vinStatuses, effs, db)"
| "submitVerificationLoop env indexedDbVins ((vin, countryCode) # rest) db vinStatuses effs =
     (let dbVin = (case indexedDbVins vin of
                     None \<Rightarrow> zeroVin vin OnboardingStatusSubmitUnknown
                   | Some r \<Rightarrow> r);
          submit = canSubmitVerificationJob (Some dbVin);
          st = (if submit then
                  (if riverInsert env (VerifyArgs vin countryCode)
                   then (vin, ''Pending'', GetDetailedStatus 1)
                   else (vin, ''Failure'', GetDetailedStatus 2))
                else (vin, GetVerificationStatus (OnboardingStatus dbVin),
                      GetDetailedStatus (OnboardingStatus dbVin)));
          effs1 = (if submit then effs @ [Enqueue (VerifyArgs vin countryCode)] else effs)
      in case InsertOrUpdateVin (ctl_fault env) db dbVin of
           Inl err \<Rightarrow> (500, [], effs1 @ [UpsertVin dbVin], db)
         | Inr db' \<Rightarrow>
             submitVerificationLoop env indexedDbVins rest db'
               (vinStatuses @ [st]) (effs1 @ [UpsertVin dbVin]))"

text \<open>
  \<open>SubmitVerificationForVins\<close>: the parsed body (VIN and country code of each entry)
  gives the HTTP status, the statuses, the effects and the store afterwards.
\<close>

definition SubmitVerificationForVins ::
  "ctl_env \<Rightarrow> store \<Rightarrow> (string \<times> string) list option
     \<Rightarrow> nat \<times> VinStatus list \<times> effect list \<times> store" where
  "SubmitVerificationForVins env db params =
     (case params of
        None \<Rightarrow> (400, [], [], db)
      | Some paramsVins \<Rightarrow>
          (let validVinsWithCountryCode =
                 filter (\<lambda>(vin, cc). isValidVin env vin)
                   (map (\<lambda>(vin, cc). (TrimSpace vin, TrimSpace cc)) paramsVins);
               validVins = map fst validVinsWithCountryCode
           in
           if length validVins \<noteq> length paramsVins then (400, [], [], db)
           else
             (let compactedVins = Compact validVins in
              if length validVins \<noteq> length compactedVins then (400, [], [], db)
              else if length validVins > 0 then
                (case GetVehiclesByVins (ctl_fault env) db validVins of
                   Inl err \<Rightarrow>
                     if errors_Is err ErrNoRows
                     then (404, [], [StoreLookup validVins], db)
                     else (500, [], [StoreLookup validVins], db)
                 | Inr dbVins \<Rightarrow>
                     submitVerificationLoop env (indexVins dbVins) validVinsWithCountryCode db
                       [] [StoreLookup validVins])
              else (200, [], [], db))))"

text \<open>
  \<open>RegisterVehicle\<close>. The environment gives the caller's wallet address from the token's
  claim (\<open>None\<close> when the claim is missing) and the identity service's answer for a
  token id; the request gives the two body fields as \<open>gjson\<close> reads them (\<open>None\<close> when the
  field does not exist).
\<close>

record identityVehicle =
  TokenID :: int
  Owner :: string
  SyntheticDevice_TokenID :: int
  Definition_ID :: string

record register_env =
  walletAddress :: "string option"
  FetchVehicleByTokenID :: "int \<Rightarrow> error + identityVehicle"
  reg_fault :: db_fault

text \<open>
  The end of \<open>RegisterVehicle\<close>, from the point where \<open>newVin\<close> is settled: the identity
  service's synthetic token id and definition id are copied when present, and the record
  is upserted.
\<close>

definition RegisterVehicle_upsert ::
  "register_env \<Rightarrow> store \<Rightarrow> identityVehicle \<Rightarrow> dbVin \<Rightarrow> nat \<times> store" where
  "RegisterVehicle_upsert env db identityVehicle newVin0 =
     (let newVin1 = (if SyntheticDevice_TokenID identityVehicle \<noteq> 0
                     then newVin0\<lparr>SyntheticTokenID :=
                                     null_Int64From (SyntheticDevice_TokenID identityVehicle)\<rparr>
                     else newVin0);
          newVin = (if Definition_ID identityVehicle \<noteq> []
                    then newVin1\<lparr>DeviceDefinitionID :=
                                    null_StringFrom (Definition_ID identityVehicle)\<rparr>
                    else newVin1)
      in case InsertOrUpdateVin (reg_fault env) db newVin of
           Inl err \<Rightarrow> (500, db)
         | Inr db' \<Rightarrow> (200, db'))"

definition RegisterVehicle ::
  "register_env \<Rightarrow> store \<Rightarrow> string option \<Rightarrow> int option \<Rightarrow> nat \<times> store" where
  "RegisterVehicle env db vinToRegister tokenIDToRegister =
     (case walletAddress env of
        None \<Rightarrow> (500, db)
      | Some wallet \<Rightarrow>
          (case (vinToRegister, tokenIDToRegister) of
             (Some vinS, Some tokenID) \<Rightarrow>
               if length vinS \<noteq> 17 then (400, db)
               else
                 (case FetchVehicleByTokenID env tokenID of
                    Inl err \<Rightarrow> (500, db)
                  | Inr identityVehicle \<Rightarrow>
                      if TokenID identityVehicle = 0 then (404, db)
                      else if Owner identityVehicle \<noteq> wallet then (401, db)
                      else
                        (let newVin0 = (zeroVin vinS OnboardingStatusSubmitUnknown)
                                         \<lparr>VehicleTokenID := null_Int64From tokenID\<rparr>;
                             lookup = GetVehicleByExternalID (reg_fault env) db vinS
                         in case lookup of
                              Inl err \<Rightarrow>
                                if \<not> errors_Is err ErrVehicleNotFound then (500, db)
                                else RegisterVehicle_upsert env db identityVehicle newVin0
                            | Inr vin \<Rightarrow>
                                if \<not> IsZeroI (VehicleTokenID vin)
                                   \<and> Int64 (VehicleTokenID vin) \<noteq> tokenID
                                then (409, db)
                                else RegisterVehicle_upsert env db identityVehicle vin))
           | _ \<Rightarrow> (400, db)))"

section \<open>SD wallets (sd_wallets.go)\<close>

text \<open>
  The hierarchical key derivation and the secp256k1 signature come from libraries
  outside the repository; they are parameters of the model. \<open>Derive\<close> is the master
  key's \<open>Derive\<close> at a child number, \<open>ECPrivKey\<close> the serialised private key of a child
  key, \<open>ToECDSA\<close> and \<open>crypto_Sign\<close> the functions of package \<open>crypto\<close>.
\<close>

type_synonym bytes = "8 word list"

record ('k, 'p) wallet_lib =
  Derive :: "32 word \<Rightarrow> error + 'k"
  ECPrivKey :: "'k \<Rightarrow> error + bytes"
  ToECDSA :: "bytes \<Rightarrow> error + 'p"
  crypto_Sign :: "bytes \<Rightarrow> 'p \<Rightarrow> error + bytes"
  PubkeyToAddress :: "'p \<Rightarrow> bytes"

definition HardenedKeyStart :: "32 word" where
  "HardenedKeyStart = 0x80000000"

text \<open>
  \<open>index\<close> is a \<open>uint32\<close>. A failing derivation is logged with \<open>logger.Fatal\<close>, which
  ends the process.
\<close>

definition getPrivateKey :: "('k, 'p) wallet_lib \<Rightarrow> 32 word \<Rightarrow> (error + 'p) outcome" where
  "getPrivateKey lib index =
     (if index \<ge> HardenedKeyStart then Returned (Inl (Err ''child_number >= 2^31''))
      else case Derive lib (HardenedKeyStart + index) of
             Inl err \<Rightarrow> Fatal
           | Inr childKey \<Rightarrow>
               (case ECPrivKey lib childKey of
                  Inl err \<Rightarrow> Returned (Inl err)
                | Inr pk \<Rightarrow>
                    (case ToECDSA lib pk of
                       Inl err \<Rightarrow> Returned (Inl err)
                     | Inr ecPk \<Rightarrow> Returned (Inr ecPk))))"

definition GetAddress :: "('k, 'p) wallet_lib \<Rightarrow> 32 word \<Rightarrow> (error + bytes) outcome" where
  "GetAddress lib index =
     (case getPrivateKey lib index of
        Returned (Inl err) \<Rightarrow> Returned (Inl err)
      | Returned (Inr pk) \<Rightarrow> Returned (Inr (PubkeyToAddress lib pk))
      | Panicked \<Rightarrow> Panicked
      | Fatal \<Rightarrow> Fatal)"

text \<open>\<open>sig[64] += 27\<close> is byte arithmetic; on a shorter slice the index panics.\<close>

definition SignHash :: "('k, 'p) wallet_lib \<Rightarrow> bytes \<Rightarrow> 32 word \<Rightarrow> (error + bytes) outcome" where
  "SignHash lib hash index =
     (case getPrivateKey lib index of
        Returned (Inl err) \<Rightarrow> Returned (Inl err)
      | Returned (Inr pk) \<Rightarrow>
          (case crypto_Sign lib hash pk of
             Inl err \<Rightarrow> Returned (Inl err)
           | Inr sig \<Rightarrow>
               if length sig \<le> 64 then Panicked
               else Returned (Inr (sig[64 := sig ! 64 + 27])))
      | Panicked \<Rightarrow> Panicked
      | Fatal \<Rightarrow> Fatal)"

section \<open>Telemetry forwarder\<close>

text \<open>
  A decoded JSON value (numbers by their text), and the CloudEvent envelope as
  \<open>json.Unmarshal\<close> fills it; \<open>Data\<close> is \<open>None\<close> when the raw message is nil.
\<close>

datatype json =
    JNull | JBool bool | JNumber string | JString string
  | JArray "json list" | JObject "(string \<times> json) list"

record CloudEvent =
  ID :: string
  ceType :: string
  Data :: "json option"
  Producer :: string
  Subject :: string

text \<open>The message handed to the handler: not a byte slice, bytes that do not decode, or
  bytes that decode to an envelope.\<close>

datatype message = NotBytes | Undecodable | Decoded CloudEvent

record NFTDID =
  did_ChainID :: "64 word"
  did_ContractAddress :: string
  did_TokenID :: "32 word"

text \<open>
  The forwarder's environment: settings, the state of the database, whether the signal
  map loads, the rendering of a DID as a string, and the ingestion endpoint's answer
  (an error or an HTTP status code).
\<close>

record fwd_env =
  ChainID :: int
  SyntheticNftAddress :: string
  VehicleNftAddress :: string
  fwd_fault :: db_fault
  LoadSignalMap_fails :: bool
  NFTDID_String :: "NFTDID \<Rightarrow> string"
  SendToDimoNode :: "CloudEvent \<Rightarrow> error + nat"

definition ParseCloudEvent :: "message \<Rightarrow> error + CloudEvent" where
  "ParseCloudEvent msg =
     (case msg of
        NotBytes \<Rightarrow> Inl (Err ''message is not of type []byte'')
      | Undecodable \<Rightarrow> Inl (Err ''unmarshal'')
      | Decoded telemetry \<Rightarrow>
          if Data telemetry = None \<or> ceType telemetry = []
          then Inl (Err ''invalid CloudEvent: missing required fields'')
          else Inr telemetry)"

text \<open>
  \<open>json.Unmarshal\<close> of the raw data into a map: an object gives its members, \<open>null\<close> gives
  the nil map, anything else is an error.
\<close>

definition unmarshal_map :: "json option \<Rightarrow> error + (string \<times> json) list" where
  "unmarshal_map raw =
     (case raw of
        Some (JObject members) \<Rightarrow> Inr members
      | Some JNull \<Rightarrow> Inr []
      | _ \<Rightarrow> Inl (Err ''unmarshal''))"

definition is_JObject :: "json \<Rightarrow> bool" where
  "is_JObject j = (case j of JObject _ \<Rightarrow> True | _ \<Rightarrow> False)"

text \<open>
  \<open>convert.ValidateSignals\<close>: the value must be an array of objects and the signal map
  must load; unknown or missing names only warn.
\<close>

definition ValidateSignals :: "fwd_env \<Rightarrow> json \<Rightarrow> error option" where
  "ValidateSignals env signals =
     (case signals of
        JArray signalsArr \<Rightarrow>
          if \<not> list_all is_JObject signalsArr
          then Some (Err ''failed to cast item to map'')
          else if LoadSignalMap_fails env then Some (Err ''load signal map'')
          else None
      | _ \<Rightarrow> Some (Err ''signals is not of type []interface{}''))"

definition validateSignals :: "fwd_env \<Rightarrow> (string \<times> json) list \<Rightarrow> error option" where
  "validateSignals env data =
     (case map_of data ''signals'' of
        None \<Rightarrow> Some (Err ''signals are missing in the message data'')
      | Some signals \<Rightarrow> ValidateSignals env signals)"

text \<open>
  The first part of \<open>HandleDeviceByVIN\<close>, up to the lookup: the envelope and the VIN of
  a message that passes every check, or the error returned.
\<close>

definition decodeMessage :: "fwd_env \<Rightarrow> message \<Rightarrow> error + (CloudEvent \<times> string)" where
  "decodeMessage env msg =
     (case ParseCloudEvent msg of
        Inl err \<Rightarrow> Inl err
      | Inr cloudEvent \<Rightarrow>
          (case unmarshal_map (Data cloudEvent) of
             Inl err \<Rightarrow> Inl err
           | Inr data \<Rightarrow>
               (case map_of data ''vin'' of
                  Some (JString vin) \<Rightarrow>
                    (case validateSignals env data of
                       Some err \<Rightarrow> Inl err
                     | None \<Rightarrow> Inr (cloudEvent, vin))
                | _ \<Rightarrow> Inl (Err ''VIN is missing in the message data''))))"

text \<open>\<open>convert.SetProducerAndSubject\<close>; the conversions to \<open>uint64\<close> and \<open>uint32\<close> truncate.\<close>

definition SetProducerAndSubject :: "fwd_env \<Rightarrow> dbVin \<Rightarrow> CloudEvent \<Rightarrow> CloudEvent" where
  "SetProducerAndSubject env veh ce =
     (let producer = NFTDID_String env
                       \<lparr>did_ChainID = word_of_int (ChainID env),
                        did_ContractAddress = SyntheticNftAddress env,
                        did_TokenID = word_of_int (Int64 (SyntheticTokenID veh))\<rparr>;
          vehTokenId = (word_of_int (Int64 (VehicleTokenID veh)) :: 32 word);
          subject = (if vehTokenId \<noteq> 0
                     then NFTDID_String env
                            \<lparr>did_ChainID = word_of_int (ChainID env),
                             did_ContractAddress = VehicleNftAddress env,
                             did_TokenID = vehTokenId\<rparr>
                     else [])
      in ce\<lparr>Subject := subject, Producer := producer\<rparr>)"

text \<open>
  \<open>HandleSendToDIS\<close>: the returned error and the events handed to the endpoint. An
  answer 400 is logged and dropped. Counters and logs are not modelled.
\<close>

definition HandleSendToDIS :: "fwd_env \<Rightarrow> CloudEvent \<Rightarrow> error option \<times> CloudEvent list" where
  "HandleSendToDIS env ce =
     (case SendToDimoNode env ce of
        Inl err \<Rightarrow> (Some err, [ce])
      | Inr statusCode \<Rightarrow> (None, [ce]))"

text \<open>
  \<open>HandleDeviceByVIN\<close>. The cache holds the records memoized and not yet expired; a hit
  is used as it is, a miss reads the store and memoizes the record. The result is the
  returned error, the cache afterwards and the events forwarded.
\<close>

definition HandleDeviceByVIN ::
  "fwd_env \<Rightarrow> (string \<rightharpoonup> dbVin) \<Rightarrow> store \<Rightarrow> message
     \<Rightarrow> error option \<times> (string \<rightharpoonup> dbVin) \<times> CloudEvent list" where
  "HandleDeviceByVIN env cache db msg =
     (case decodeMessage env msg of
        Inl err \<Rightarrow> (Some err, cache, [])
      | Inr (cloudEvent, vin) \<Rightarrow>
          (case (case cache vin of
                   Some cachedResponse \<Rightarrow> Inr (cachedResponse, cache)
                 | None \<Rightarrow>
                     (case GetVehicleByVin (fwd_fault env) db vin of
                        Inl err \<Rightarrow> Inl err
                      | Inr response \<Rightarrow> Inr (response, cache(vin \<mapsto> response)))) of
             Inl err \<Rightarrow> (Some err, cache, [])
           | Inr (vehicle, cache') \<Rightarrow>
               if Int64 (VehicleTokenID vehicle) = 0 then (None, cache', [])
               else
                 (case HandleSendToDIS env (SetProducerAndSubject env vehicle cloudEvent) of
                    (err, sent) \<Rightarrow> (err, cache', sent))))"

section \<open>Verified properties\<close>

lemmas status_codes =
  OnboardingStatusSubmitUnknown_def OnboardingStatusDecodingUnknown_def
  OnboardingStatusVendorValidationUnknown_def OnboardingStatusVendorValidationFailure_def
  OnboardingStatusVendorValidationSuccess_def OnboardingStatusMintSubmitUnknown_def
  OnboardingStatusConnectFailure_def OnboardingStatusMintSuccess_def
  OnboardingStatusDisconnectSubmitUnknown_def OnboardingStatusDisconnectUnknown_def
  OnboardingStatusDisconnectFailure_def OnboardingStatusDisconnectSuccess_def
  OnboardingStatusBurnSDFailure_def OnboardingStatusBurnSDSuccess_def
  OnboardingStatusBurnVehicleFailure_def OnboardingStatusBurnVehicleSuccess_def

lemmas status_preds =
  IsVerified_def IsMinted_def IsDisconnected_def IsFailure_def IsPending_def
  IsMintPending_def IsDisconnectPending_def

subsection \<open>Gate predicates\<close>

text \<open>
  C1. The mint gate \<open>canSubmitMintingJob\<close> never admits a nil record, and admits a
  record with status \<open>s\<close> exactly when (\<open>s = 53\<close> and the connection status reads
  \<open>failed\<close>) or ((\<open>s \<noteq> 53\<close> or \<open>s = 83\<close>) and (\<open>s % 10 = 2\<close> or neither
  \<open>30 < s < 53\<close> nor (\<open>60 < s < 83\<close> and \<open>s % 10 \<noteq> 2\<close>))).
\<close>

theorem canSubmitMintingJob_characterisation:
  "canSubmitMintingJob None = False \<and>
   canSubmitMintingJob (Some r) =
    ((OnboardingStatus r = 53 \<and> String (ConnectionStatus r) = ''failed'') \<or>
     ((OnboardingStatus r \<noteq> 53 \<or> OnboardingStatus r = 83) \<and>
      (OnboardingStatus r smod 10 = 2 \<or>
       (\<not> (30 < OnboardingStatus r \<and> OnboardingStatus r < 53) \<and>
        \<not> (60 < OnboardingStatus r \<and> OnboardingStatus r < 83
           \<and> OnboardingStatus r smod 10 \<noteq> 2)))))"
  by (simp add: canSubmitMintingJob_def Let_def status_preds status_codes)

theorem canSubmitMintingJob_characterisation_witness:
  "canSubmitMintingJob
     (Some ((zeroVin ''1FTFW1ET5DFA12345'' 53)\<lparr>ConnectionStatus := null_StringFrom ''failed''\<rparr>))
   \<and> \<not> canSubmitMintingJob (Some (zeroVin ''1FTFW1ET5DFA12345'' 53))
   \<and> canSubmitMintingJob (Some (zeroVin ''1FTFW1ET5DFA12345'' 52))
   \<and> \<not> canSubmitMintingJob (Some (zeroVin ''1FTFW1ET5DFA12345'' 71))"
  using canSubmitMintingJob_characterisation
          [of "(zeroVin ''1FTFW1ET5DFA12345'' 53)\<lparr>ConnectionStatus := null_StringFrom ''failed''\<rparr>"]
        canSubmitMintingJob_characterisation [of "zeroVin ''1FTFW1ET5DFA12345'' 53"]
        canSubmitMintingJob_characterisation [of "zeroVin ''1FTFW1ET5DFA12345'' 52"]
        canSubmitMintingJob_characterisation [of "zeroVin ''1FTFW1ET5DFA12345'' 71"]
  by (simp add: zeroVin_def null_StringFrom_def null_String_null_def signed_modulo_int_def)

text \<open>
  C7 (as stated). The claim reads the verify gate as admitting an absent record. The
  function \<open>canSubmitVerificationJob\<close> rejects the nil record, so it differs from the
  specification's predicate there.
\<close>

theorem canSubmitVerificationJob_nil_counterexample:
  "canSubmitVerificationJob None \<noteq> verify_gate_spec None"
  by (simp add: canSubmitVerificationJob_def verify_gate_spec_def)

text \<open>
  C7 (amended). \<open>canSubmitVerificationJob\<close> rejects a nil record; it admits a non-nil
  record with status \<open>s\<close> exactly when \<open>s < 23\<close> and (\<open>s % 10 = 2\<close> or not
  \<open>0 < s < 53\<close>). The record that the submit handler builds for a VIN absent from
  the store (status \<open>SubmitUnknown\<close>) is admitted.
\<close>

theorem canSubmitVerificationJob_characterisation:
  "canSubmitVerificationJob None = False \<and>
   canSubmitVerificationJob (Some r) =
     (OnboardingStatus r < 23 \<and>
      (OnboardingStatus r smod 10 = 2 \<or> \<not> (0 < OnboardingStatus r \<and> OnboardingStatus r < 53))) \<and>
   canSubmitVerificationJob (Some (zeroVin v OnboardingStatusSubmitUnknown)) = True"
  by (auto simp add: canSubmitVerificationJob_def Let_def status_preds status_codes zeroVin_def)

theorem canSubmitVerificationJob_characterisation_witness:
  "canSubmitVerificationJob (Some (zeroVin ''1FTFW1ET5DFA12345'' 12))
   \<and> \<not> canSubmitVerificationJob (Some (zeroVin ''1FTFW1ET5DFA12345'' 11))
   \<and> \<not> canSubmitVerificationJob (Some (zeroVin ''1FTFW1ET5DFA12345'' 23))"
  using canSubmitVerificationJob_characterisation [of "zeroVin ''1FTFW1ET5DFA12345'' 12"]
        canSubmitVerificationJob_characterisation [of "zeroVin ''1FTFW1ET5DFA12345'' 11"]
        canSubmitVerificationJob_characterisation [of "zeroVin ''1FTFW1ET5DFA12345'' 23"]
  by (simp add: zeroVin_def signed_modulo_int_def)

subsection \<open>Store lemmas\<close>

lemma Vin_set_column [simp]: "Vin (set_column r c row) = Vin row"
  by (cases c) simp_all

lemma Vin_write_columns [simp]: "Vin (write_columns cols r row) = Vin row"
  by (induction cols) (simp_all add: write_columns_def)

lemma One_by_vin_Update:
  "One_by_vin v (Update cols r db) =
     map_option (\<lambda>row. if v = Vin r then write_columns cols r row else row) (One_by_vin v db)"
  by (induction db) (auto simp add: One_by_vin_def Update_def)

lemma One_by_vin_Vin: "One_by_vin v db = Some r \<Longrightarrow> Vin r = v"
  by (induction db) (auto simp add: One_by_vin_def split: if_splits)

subsection \<open>Verify worker: vendor validation\<close>

text \<open>
  C2 (the code at the failing input). With the capability check enabled and the vendor
  answering \<open>notCapable\<close> for the VIN, the stage returns no error and leaves the record,
  and the stored row, at \<open>VendorValidationSuccess (23)\<close>: the source compares the status
  with \<open>notCapable\<close> followed by a blank. The answers \<open>noDataFound\<close> and \<open>notCapable\<close>
  with the trailing blank end at \<open>VendorValidationFailure (22)\<close> with an error.
\<close>

theorem ValidateWithExternalVendorAndUpdate_notCapable:
  "ValidateWithExternalVendorAndUpdate
     \<lparr>EnableVendorCapabilityCheck = True,
      vendor_Validate = (\<lambda>vins. Inr (map (\<lambda>v. \<lparr>VIN = v, Status = ''notCapable''\<rparr>) vins)),
      verify_fault = NoFault\<rparr>
     [zeroVin ''1FTFW1ET5DFA12345'' 13] (zeroVin ''1FTFW1ET5DFA12345'' 13) ''1FTFW1ET5DFA12345''
   = (Returned None, zeroVin ''1FTFW1ET5DFA12345'' 23, [zeroVin ''1FTFW1ET5DFA12345'' 23])
   \<and>
   ValidateWithExternalVendorAndUpdate
     \<lparr>EnableVendorCapabilityCheck = True,
      vendor_Validate = (\<lambda>vins. Inr (map (\<lambda>v. \<lparr>VIN = v, Status = ''noDataFound''\<rparr>) vins)),
      verify_fault = NoFault\<rparr>
     [zeroVin ''1FTFW1ET5DFA12345'' 13] (zeroVin ''1FTFW1ET5DFA12345'' 13) ''1FTFW1ET5DFA12345''
   = (Returned (Some (Err ''vin validation failed'')),
      zeroVin ''1FTFW1ET5DFA12345'' 22, [zeroVin ''1FTFW1ET5DFA12345'' 22])
   \<and>
   ValidateWithExternalVendorAndUpdate
     \<lparr>EnableVendorCapabilityCheck = True,
      vendor_Validate = (\<lambda>vins. Inr (map (\<lambda>v. \<lparr>VIN = v, Status = ''notCapable ''\<rparr>) vins)),
      verify_fault = NoFault\<rparr>
     [zeroVin ''1FTFW1ET5DFA12345'' 13] (zeroVin ''1FTFW1ET5DFA12345'' 13) ''1FTFW1ET5DFA12345''
   = (Returned (Some (Err ''vin validation failed'')),
      zeroVin ''1FTFW1ET5DFA12345'' 22, [zeroVin ''1FTFW1ET5DFA12345'' 22])"
  by (simp add: ValidateWithExternalVendorAndUpdate_def ValidateWithExternalVendor_body_def
      verify_update_def Update_def write_columns_def all_columns_def zeroVin_def status_codes)

subsection \<open>Burn stages of the disconnect and delete workers\<close>

lemma BurnSDAndUpdate_send_fails:
  "SendSignedUserOperation env uo = Inl err \<Longrightarrow>
   BurnSDAndUpdate env db r uo =
     (Returned (None, Some err),
      r\<lparr>OnboardingStatus := OnboardingStatusBurnSDFailure\<rparr>,
      worker_update env [ColOnboardingStatus, ColSyntheticTokenID, ColWalletIndex]
        (r\<lparr>OnboardingStatus := OnboardingStatusBurnSDFailure\<rparr>) db,
      [uo])"
  by (simp add: BurnSDAndUpdate_def BurnSD_body_def Lock_def Unlock_def)

lemma BurnSDAndUpdate_success:
  "SendSignedUserOperation env uo = Inr opResult \<Longrightarrow>
   GetBurnSDByOwnerResult env opResult = Inr n \<Longrightarrow>
   BurnSDAndUpdate env db r uo =
     (Returned (Some (r\<lparr>WalletIndex := null_NewInt64 0 False,
                          SyntheticTokenID := null_NewInt64 0 False,
                          OnboardingStatus := OnboardingStatusBurnSDSuccess\<rparr>), None),
      r\<lparr>WalletIndex := null_NewInt64 0 False, SyntheticTokenID := null_NewInt64 0 False,
        OnboardingStatus := OnboardingStatusBurnSDSuccess\<rparr>,
      worker_update env [ColOnboardingStatus, ColSyntheticTokenID, ColWalletIndex]
        (r\<lparr>WalletIndex := null_NewInt64 0 False, SyntheticTokenID := null_NewInt64 0 False,
           OnboardingStatus := OnboardingStatusBurnSDSuccess\<rparr>) db,
      [uo])"
  by (simp add: BurnSDAndUpdate_def BurnSD_body_def BurnSD_tail_def Lock_def Unlock_def Let_def)

lemma BurnSDAndUpdate_read_fails:
  "SendSignedUserOperation env uo = Inr opResult \<Longrightarrow>
   GetBurnSDByOwnerResult env opResult = Inl err \<Longrightarrow>
   BurnSDAndUpdate env db r uo =
     (Fatal, r\<lparr>OnboardingStatus := OnboardingStatusBurnSDFailure\<rparr>, db, [uo])"
  by (simp add: BurnSDAndUpdate_def BurnSD_body_def BurnSD_tail_def Lock_def Unlock_def Let_def)

lemma BurnVehicleAndUpdate_send_fails:
  "SendSignedUserOperation env uo = Inl err \<Longrightarrow>
   BurnVehicleAndUpdate env db r uo =
     (Returned (None, Some err),
      r\<lparr>OnboardingStatus := OnboardingStatusBurnVehicleFailure\<rparr>,
      worker_update env [ColOnboardingStatus, ColVehicleTokenID]
        (r\<lparr>OnboardingStatus := OnboardingStatusBurnVehicleFailure\<rparr>) db,
      [uo])"
  by (simp add: BurnVehicleAndUpdate_def BurnVehicle_body_def Lock_def Unlock_def)

lemma BurnVehicleAndUpdate_success:
  "SendSignedUserOperation env uo = Inr opResult \<Longrightarrow>
   GetBurnVehicleByOwnerResult env opResult = Inr n \<Longrightarrow>
   BurnVehicleAndUpdate env db r uo =
     (Returned (Some (r\<lparr>VehicleTokenID := null_NewInt64 0 False,
                          OnboardingStatus := OnboardingStatusBurnVehicleSuccess\<rparr>), None),
      r\<lparr>VehicleTokenID := null_NewInt64 0 False,
        OnboardingStatus := OnboardingStatusBurnVehicleSuccess\<rparr>,
      worker_update env [ColOnboardingStatus, ColVehicleTokenID]
        (r\<lparr>VehicleTokenID := null_NewInt64 0 False,
           OnboardingStatus := OnboardingStatusBurnVehicleSuccess\<rparr>) db,
      [uo])"
  by (simp add: BurnVehicleAndUpdate_def BurnVehicle_body_def BurnVehicle_tail_def Lock_def
      Unlock_def Let_def)

lemma BurnVehicleAndUpdate_read_fails:
  "SendSignedUserOperation env uo = Inr opResult \<Longrightarrow>
   GetBurnVehicleByOwnerResult env opResult = Inl err \<Longrightarrow>
   BurnVehicleAndUpdate env db r uo =
     (Fatal, r\<lparr>OnboardingStatus := OnboardingStatusBurnVehicleFailure\<rparr>, db, [uo])"
  by (simp add: BurnVehicleAndUpdate_def BurnVehicle_body_def BurnVehicle_tail_def Lock_def
      Unlock_def Let_def)

text \<open>
  C3 (the code at the failing input). The record is minted and disconnected from the
  vendor (status 73, synthetic token 202, wallet index 7); the burn operation is
  submitted, and reading its result fails. The error branch sets \<open>BurnSDFailure\<close> and
  releases the mutex but does not return, so the stage runs into the second
  \<open>w.m.Unlock()\<close>: the process aborts, the deferred update never runs, and the stored row
  keeps status 73 instead of 82.
\<close>

theorem BurnSDAndUpdate_result_read_failure:
  "BurnSDAndUpdate
     \<lparr>SendSignedUserOperation = (\<lambda>uo. Inr ''receipt''),
      GetBurnSDByOwnerResult = (\<lambda>r. Inl (Err ''no burn event'')),
      GetBurnVehicleByOwnerResult = (\<lambda>r. Inl (Err ''no burn event'')),
      tr_fault = NoFault\<rparr>
     [(zeroVin ''1FTFW1ET5DFA12345'' 73)
        \<lparr>VehicleTokenID := null_Int64From 101, SyntheticTokenID := null_Int64From 202,
         WalletIndex := null_Int64From 7\<rparr>]
     ((zeroVin ''1FTFW1ET5DFA12345'' 73)
        \<lparr>VehicleTokenID := null_Int64From 101, SyntheticTokenID := null_Int64From 202,
         WalletIndex := null_Int64From 7\<rparr>)
     ''burn-sd-op''
   = (Fatal,
      (zeroVin ''1FTFW1ET5DFA12345'' 82)
        \<lparr>VehicleTokenID := null_Int64From 101, SyntheticTokenID := null_Int64From 202,
         WalletIndex := null_Int64From 7\<rparr>,
      [(zeroVin ''1FTFW1ET5DFA12345'' 73)
        \<lparr>VehicleTokenID := null_Int64From 101, SyntheticTokenID := null_Int64From 202,
         WalletIndex := null_Int64From 7\<rparr>],
      [''burn-sd-op''])"
  by (simp add: BurnSDAndUpdate_read_fails zeroVin_def status_codes)

text \<open>
  C4 (as stated). A record at \<open>BurnSDSuccess (83)\<close> with neither token id: the claim has
  the worker submit the burn-vehicle operation, but the worker submits only when
  \<open>vehicle_token_id\<close> is present, and here returns success with nothing submitted.
\<close>

theorem DeleteWorker_Work_no_vehicle_token_counterexample:
  "DeleteWorker_Work
     \<lparr>SendSignedUserOperation = (\<lambda>uo. Inr ''receipt''),
      GetBurnSDByOwnerResult = (\<lambda>r. Inr 202),
      GetBurnVehicleByOwnerResult = (\<lambda>r. Inr 101),
      tr_fault = NoFault\<rparr>
     [zeroVin ''1FTFW1ET5DFA12345'' 83] ''1FTFW1ET5DFA12345'' ''burn-vehicle-op''
   = (Returned None, [zeroVin ''1FTFW1ET5DFA12345'' 83], [])"
  by (simp add: DeleteWorker_Work_def GetVinRecord_def One_by_vin_def zeroVin_def
      null_NewInt64_def status_codes)

text \<open>
  C4 (amended). For a stored record with status at least \<open>BurnSDSuccess (83)\<close> and not
  \<open>BurnVehicleSuccess (103)\<close>, and a working database: if \<open>synthetic_token_id\<close> is
  present the worker returns an error and submits nothing; if neither token id is
  present it returns success and submits nothing; if only \<open>vehicle_token_id\<close> is present
  it submits the burn-vehicle operation, and when the submission fails it returns that
  error with the row at \<open>BurnVehicleFailure (102)\<close> and \<open>vehicle_token_id\<close> unchanged,
  while when submission and result both succeed it returns success with
  \<open>vehicle_token_id\<close> cleared and the row at \<open>BurnVehicleSuccess (103)\<close>.
\<close>

theorem DeleteWorker_Work_stages:
  assumes "tr_fault env = NoFault"
    and "One_by_vin v db = Some r"
    and "OnboardingStatusBurnSDSuccess \<le> OnboardingStatus r"
    and "OnboardingStatus r \<noteq> OnboardingStatusBurnVehicleSuccess"
  shows "(ValidI (SyntheticTokenID r) \<longrightarrow>
            DeleteWorker_Work env db v uo = (Returned (Some (Err ''sd not empty'')), db, []))
       \<and> (\<not> ValidI (SyntheticTokenID r) \<and> \<not> ValidI (VehicleTokenID r) \<longrightarrow>
            DeleteWorker_Work env db v uo = (Returned None, db, []))
       \<and> (\<not> ValidI (SyntheticTokenID r) \<and> ValidI (VehicleTokenID r) \<longrightarrow>
            (\<forall>err. SendSignedUserOperation env uo = Inl err \<longrightarrow>
               (case DeleteWorker_Work env db v uo of
                  (out, db', sent) \<Rightarrow>
                    out = Returned (Some err) \<and> sent = [uo] \<and>
                    One_by_vin v db' =
                      Some (r\<lparr>OnboardingStatus := OnboardingStatusBurnVehicleFailure\<rparr>)))
          \<and> (\<forall>opResult n. SendSignedUserOperation env uo = Inr opResult \<and>
                 GetBurnVehicleByOwnerResult env opResult = Inr n \<longrightarrow>
               (case DeleteWorker_Work env db v uo of
                  (out, db', sent) \<Rightarrow>
                    out = Returned None \<and> sent = [uo] \<and>
                    One_by_vin v db' =
                      Some (r\<lparr>VehicleTokenID := null_NewInt64 0 False,
                              OnboardingStatus := OnboardingStatusBurnVehicleSuccess\<rparr>))))"
proof -
  have vr: "Vin r = v" using assms(2) by (rule One_by_vin_Vin)
  have get: "GetVinRecord env db v = Inr r"
    using assms(1,2) by (simp add: GetVinRecord_def)
  have pre: "\<not> OnboardingStatus r < OnboardingStatusBurnSDSuccess" using assms(3) by simp
  have upd: "\<And>r'. Vin r' = v \<Longrightarrow>
      One_by_vin v (worker_update env [ColOnboardingStatus, ColVehicleTokenID] r' db) =
        Some (write_columns [ColOnboardingStatus, ColVehicleTokenID] r' r)"
    using assms(1,2) by (simp add: worker_update_def One_by_vin_Update)
  show ?thesis
    using assms(4) pre vr
    by (simp add: DeleteWorker_Work_def get BurnVehicleAndUpdate_send_fails
        BurnVehicleAndUpdate_success upd write_columns_def)
qed

theorem DeleteWorker_Work_stages_witness:
  "(case DeleteWorker_Work
           \<lparr>SendSignedUserOperation = (\<lambda>uo. Inl (Err ''bundler unavailable'')),
            GetBurnSDByOwnerResult = (\<lambda>r. Inr 202),
            GetBurnVehicleByOwnerResult = (\<lambda>r. Inr 101),
            tr_fault = NoFault\<rparr>
           [(zeroVin ''1FTFW1ET5DFA12345'' 83)\<lparr>VehicleTokenID := null_Int64From 101\<rparr>]
           ''1FTFW1ET5DFA12345'' ''burn-vehicle-op'' of
      (out, db', sent) \<Rightarrow>
        out = Returned (Some (Err ''bundler unavailable'')) \<and> sent = [''burn-vehicle-op''] \<and>
        One_by_vin ''1FTFW1ET5DFA12345'' db' =
          Some ((zeroVin ''1FTFW1ET5DFA12345'' 102)\<lparr>VehicleTokenID := null_Int64From 101\<rparr>))
   \<and>
   (case DeleteWorker_Work
           \<lparr>SendSignedUserOperation = (\<lambda>uo. Inr ''receipt''),
            GetBurnSDByOwnerResult = (\<lambda>r. Inr 202),
            GetBurnVehicleByOwnerResult = (\<lambda>r. Inr 101),
            tr_fault = NoFault\<rparr>
           [(zeroVin ''1FTFW1ET5DFA12345'' 83)\<lparr>VehicleTokenID := null_Int64From 101\<rparr>]
           ''1FTFW1ET5DFA12345'' ''burn-vehicle-op'' of
      (out, db', sent) \<Rightarrow>
        out = Returned None \<and> sent = [''burn-vehicle-op''] \<and>
        One_by_vin ''1FTFW1ET5DFA12345'' db' = Some (zeroVin ''1FTFW1ET5DFA12345'' 103))
   \<and>
   DeleteWorker_Work
           \<lparr>SendSignedUserOperation = (\<lambda>uo. Inr ''receipt''),
            GetBurnSDByOwnerResult = (\<lambda>r. Inr 202),
            GetBurnVehicleByOwnerResult = (\<lambda>r. Inr 101),
            tr_fault = NoFault\<rparr>
           [(zeroVin ''1FTFW1ET5DFA12345'' 92)
              \<lparr>VehicleTokenID := null_Int64From 101, SyntheticTokenID := null_Int64From 202\<rparr>]
           ''1FTFW1ET5DFA12345'' ''burn-vehicle-op''
     = (Returned (Some (Err ''sd not empty'')),
        [(zeroVin ''1FTFW1ET5DFA12345'' 92)
              \<lparr>VehicleTokenID := null_Int64From 101, SyntheticTokenID := null_Int64From 202\<rparr>],
        [])"
  using DeleteWorker_Work_stages
          [of "\<lparr>SendSignedUserOperation = (\<lambda>uo. Inl (Err ''bundler unavailable'')),
                GetBurnSDByOwnerResult = (\<lambda>r. Inr 202),
                GetBurnVehicleByOwnerResult = (\<lambda>r. Inr 101),
                tr_fault = NoFault\<rparr>"
              "''1FTFW1ET5DFA12345''"
              "[(zeroVin ''1FTFW1ET5DFA12345'' 83)\<lparr>VehicleTokenID := null_Int64From 101\<rparr>]"
              "(zeroVin ''1FTFW1ET5DFA12345'' 83)\<lparr>VehicleTokenID := null_Int64From 101\<rparr>"
              "''burn-vehicle-op''"]
        DeleteWorker_Work_stages
          [of "\<lparr>SendSignedUserOperation = (\<lambda>uo. Inr ''receipt''),
                GetBurnSDByOwnerResult = (\<lambda>r. Inr 202),
                GetBurnVehicleByOwnerResult = (\<lambda>r. Inr 101),
                tr_fault = NoFault\<rparr>"
              "''1FTFW1ET5DFA12345''"
              "[(zeroVin ''1FTFW1ET5DFA12345'' 83)\<lparr>VehicleTokenID := null_Int64From 101\<rparr>]"
              "(zeroVin ''1FTFW1ET5DFA12345'' 83)\<lparr>VehicleTokenID := null_Int64From 101\<rparr>"
              "''burn-vehicle-op''"]
        DeleteWorker_Work_stages
          [of "\<lparr>SendSignedUserOperation = (\<lambda>uo. Inr ''receipt''),
                GetBurnSDByOwnerResult = (\<lambda>r. Inr 202),
                GetBurnVehicleByOwnerResult = (\<lambda>r. Inr 101),
                tr_fault = NoFault\<rparr>"
              "''1FTFW1ET5DFA12345''"
              "[(zeroVin ''1FTFW1ET5DFA12345'' 92)
                 \<lparr>VehicleTokenID := null_Int64From 101, SyntheticTokenID := null_Int64From 202\<rparr>]"
              "(zeroVin ''1FTFW1ET5DFA12345'' 92)
                 \<lparr>VehicleTokenID := null_Int64From 101, SyntheticTokenID := null_Int64From 202\<rparr>"
              "''burn-vehicle-op''"]
  by (simp add: One_by_vin_def zeroVin_def null_Int64From_def null_NewInt64_def status_codes)

subsection \<open>Enrollment updates of the store\<close>

lemma frame_write_enrollment:
  "frame_columns (write_columns enrollment_columns r row) = frame_columns row"
  by (simp add: frame_columns_def write_columns_def enrollment_columns_def)

lemma frame_Update_enrollment:
  "map frame_columns (Update enrollment_columns r db) = map frame_columns db"
  by (simp add: Update_def frame_write_enrollment)

lemma others_Update:
  "filter (\<lambda>row. Vin row \<noteq> Vin r) (Update cols r db) = filter (\<lambda>row. Vin row \<noteq> Vin r) db"
  by (induction db) (simp_all add: Update_def)

lemma Vin_set_operation_error [simp]: "Vin (set_operation_error e r) = Vin r"
  by (simp add: set_operation_error_def split: option.splits)

lemma others_Update_vin:
  "Vin r = vin \<Longrightarrow>
   filter (\<lambda>row. Vin row \<noteq> vin) (Update cols r db) = filter (\<lambda>row. Vin row \<noteq> vin) db"
  using others_Update [of r cols db] by simp

lemma error_columns_set_operation_error_None:
  "error_columns (write_columns enrollment_columns (set_operation_error None r) row) =
     (null_String_null, null_String_null, null_String_null)"
  by (simp add: error_columns_def write_columns_def enrollment_columns_def set_operation_error_def)

text \<open>
  C10. \<open>UpdateEnrollmentStatus\<close> and \<open>UpdateUnenrollmentStatus\<close> leave the VIN,
  \<open>onboarding_status\<close>, \<open>vehicle_token_id\<close>, \<open>synthetic_token_id\<close>, \<open>wallet_index\<close> and
  \<open>device_definition_id\<close> of every row as they were, whatever the arguments and whether
  or not the call succeeds; rows of other VINs are not changed at all; and a call with a
  nil error argument that succeeds leaves the three \<open>operation_error\<close> columns of the
  VIN's row null.
\<close>

theorem enrollment_updates_frame:
  "map frame_columns (snd (UpdateEnrollmentStatus fault db vin status externalID err))
     = map frame_columns db
   \<and> map frame_columns (snd (UpdateUnenrollmentStatus fault db vin status err))
     = map frame_columns db
   \<and> filter (\<lambda>row. Vin row \<noteq> vin) (snd (UpdateEnrollmentStatus fault db vin status externalID err))
     = filter (\<lambda>row. Vin row \<noteq> vin) db
   \<and> filter (\<lambda>row. Vin row \<noteq> vin) (snd (UpdateUnenrollmentStatus fault db vin status err))
     = filter (\<lambda>row. Vin row \<noteq> vin) db
   \<and> (fst (UpdateEnrollmentStatus fault db vin status externalID None) = None \<longrightarrow>
        map_option error_columns
          (One_by_vin vin (snd (UpdateEnrollmentStatus fault db vin status externalID None)))
        = Some (null_String_null, null_String_null, null_String_null))
   \<and> (fst (UpdateUnenrollmentStatus fault db vin status None) = None \<longrightarrow>
        map_option error_columns
          (One_by_vin vin (snd (UpdateUnenrollmentStatus fault db vin status None)))
        = Some (null_String_null, null_String_null, null_String_null))"
proof -
  have a: "map frame_columns (snd (UpdateEnrollmentStatus fault db vin status externalID err))
     = map frame_columns db"
    by (simp add: UpdateEnrollmentStatus_def Let_def frame_Update_enrollment split: option.splits)
  have b: "map frame_columns (snd (UpdateUnenrollmentStatus fault db vin status err))
     = map frame_columns db"
    by (simp add: UpdateUnenrollmentStatus_def Let_def frame_Update_enrollment split: option.splits)
  have c: "filter (\<lambda>row. Vin row \<noteq> vin)
             (snd (UpdateEnrollmentStatus fault db vin status externalID err))
     = filter (\<lambda>row. Vin row \<noteq> vin) db"
    by (auto simp add: UpdateEnrollmentStatus_def Let_def others_Update_vin
        dest: One_by_vin_Vin split: option.splits)
  have d: "filter (\<lambda>row. Vin row \<noteq> vin)
             (snd (UpdateUnenrollmentStatus fault db vin status err))
     = filter (\<lambda>row. Vin row \<noteq> vin) db"
    by (auto simp add: UpdateUnenrollmentStatus_def Let_def others_Update_vin
        dest: One_by_vin_Vin split: option.splits)
  have e: "fst (UpdateEnrollmentStatus fault db vin status externalID None) = None \<longrightarrow>
        map_option error_columns
          (One_by_vin vin (snd (UpdateEnrollmentStatus fault db vin status externalID None)))
        = Some (null_String_null, null_String_null, null_String_null)"
    by (auto simp add: UpdateEnrollmentStatus_def Let_def One_by_vin_Update
        error_columns_set_operation_error_None dest: One_by_vin_Vin
        split: option.splits if_splits)
  have f: "fst (UpdateUnenrollmentStatus fault db vin status None) = None \<longrightarrow>
        map_option error_columns
          (One_by_vin vin (snd (UpdateUnenrollmentStatus fault db vin status None)))
        = Some (null_String_null, null_String_null, null_String_null)"
    by (auto simp add: UpdateUnenrollmentStatus_def Let_def One_by_vin_Update
        error_columns_set_operation_error_None dest: One_by_vin_Vin
        split: option.splits if_splits)
  from a b c d e f show ?thesis by blast
qed

theorem enrollment_updates_frame_witness:
  "fst (UpdateEnrollmentStatus NoFault
          [(zeroVin ''1FTFW1ET5DFA12345'' 53)
             \<lparr>VehicleTokenID := null_Int64From 101, SyntheticTokenID := null_Int64From 202,
              WalletIndex := null_Int64From 7,
              OperationErrorCode := null_StringFrom ''E42''\<rparr>]
          ''1FTFW1ET5DFA12345'' ''succeeded'' ''vehicle-9'' None) = None
   \<and> map_option error_columns
        (One_by_vin ''1FTFW1ET5DFA12345''
          (snd (UpdateEnrollmentStatus NoFault
                  [(zeroVin ''1FTFW1ET5DFA12345'' 53)
                     \<lparr>VehicleTokenID := null_Int64From 101,
                      SyntheticTokenID := null_Int64From 202,
                      WalletIndex := null_Int64From 7,
                      OperationErrorCode := null_StringFrom ''E42''\<rparr>]
                  ''1FTFW1ET5DFA12345'' ''succeeded'' ''vehicle-9'' None)))
      = Some (null_String_null, null_String_null, null_String_null)
   \<and> map frame_columns
        (snd (UpdateEnrollmentStatus NoFault
                [(zeroVin ''1FTFW1ET5DFA12345'' 53)
                   \<lparr>VehicleTokenID := null_Int64From 101,
                    SyntheticTokenID := null_Int64From 202,
                    WalletIndex := null_Int64From 7,
                    OperationErrorCode := null_StringFrom ''E42''\<rparr>]
                ''1FTFW1ET5DFA12345'' ''succeeded'' ''vehicle-9'' None))
      = [(''1FTFW1ET5DFA12345'', 53, null_Int64From 101, null_Int64From 202,
          null_Int64From 7, null_String_null)]
   \<and> fst (UpdateUnenrollmentStatus NoFault
          [(zeroVin ''1FTFW1ET5DFA12345'' 73)
             \<lparr>VehicleTokenID := null_Int64From 101,
              OperationErrorCode := null_StringFrom ''E42''\<rparr>]
          ''1FTFW1ET5DFA12345'' ''succeeded'' None) = None
   \<and> map_option error_columns
        (One_by_vin ''1FTFW1ET5DFA12345''
          (snd (UpdateUnenrollmentStatus NoFault
                  [(zeroVin ''1FTFW1ET5DFA12345'' 73)
                     \<lparr>VehicleTokenID := null_Int64From 101,
                      OperationErrorCode := null_StringFrom ''E42''\<rparr>]
                  ''1FTFW1ET5DFA12345'' ''succeeded'' None)))
      = Some (null_String_null, null_String_null, null_String_null)"
  using enrollment_updates_frame
          [of NoFault
              "[(zeroVin ''1FTFW1ET5DFA12345'' 53)
                  \<lparr>VehicleTokenID := null_Int64From 101, SyntheticTokenID := null_Int64From 202,
                   WalletIndex := null_Int64From 7,
                   OperationErrorCode := null_StringFrom ''E42''\<rparr>]"
              "''1FTFW1ET5DFA12345''" "''succeeded''" "''vehicle-9''" None]
        enrollment_updates_frame
          [of NoFault
              "[(zeroVin ''1FTFW1ET5DFA12345'' 73)
                  \<lparr>VehicleTokenID := null_Int64From 101,
                   OperationErrorCode := null_StringFrom ''E42''\<rparr>]"
              "''1FTFW1ET5DFA12345''" "''succeeded''" "''vehicle-9''" None]
  by (simp add: UpdateEnrollmentStatus_def UpdateUnenrollmentStatus_def One_by_vin_def
      zeroVin_def frame_columns_def Let_def)

subsection \<open>API controller\<close>

lemma valid_A: "vinRegexp_MatchString ''ABCDEFG1234567811''"
  by (simp add: vinRegexp_MatchString_def vinChar_def)
lemma valid_B: "vinRegexp_MatchString ''ABCDEFG1234567812''"
  by (simp add: vinRegexp_MatchString_def vinChar_def)
lemma trim_A: "TrimSpace ''ABCDEFG1234567811'' = ''ABCDEFG1234567811''"
  by (simp add: TrimSpace_def isSpace_def)
lemma trim_B: "TrimSpace ''ABCDEFG1234567812'' = ''ABCDEFG1234567812''"
  by (simp add: TrimSpace_def isSpace_def)
lemma trim_USA: "TrimSpace ''USA'' = ''USA''"
  by (simp add: TrimSpace_def isSpace_def)

text \<open>
  C6 (the code at the failing input). The list holds the same valid VIN at positions 1
  and 3 with another VIN between them. \<open>slices.Compact\<close> removes only consecutive
  repetitions, so the duplicate check passes: the status query looks the list up in the
  store and answers 200, and the submission looks it up, enqueues the verify job of the
  repeated VIN twice, upserts a record three times and answers 200. Only when the two
  occurrences are adjacent is the answer 400 with no effect.
\<close>

theorem duplicate_vins_not_adjacent:
  "GetVerificationStatusForVins
     \<lparr>EnableVendorTestMode = False, ctl_fault = NoFault, riverInsert = (\<lambda>j. True)\<rparr> []
     (Some [''ABCDEFG1234567811'', ''ABCDEFG1234567812'', ''ABCDEFG1234567811''])
   = (200,
      [(''ABCDEFG1234567811'', ''Unknown'', ''Unknown''),
       (''ABCDEFG1234567812'', ''Unknown'', ''Unknown''),
       (''ABCDEFG1234567811'', ''Unknown'', ''Unknown'')],
      [StoreLookup [''ABCDEFG1234567811'', ''ABCDEFG1234567812'', ''ABCDEFG1234567811'']])
   \<and>
   SubmitVerificationForVins
     \<lparr>EnableVendorTestMode = False, ctl_fault = NoFault, riverInsert = (\<lambda>j. True)\<rparr> []
     (Some [(''ABCDEFG1234567811'', ''USA''), (''ABCDEFG1234567812'', ''USA''),
            (''ABCDEFG1234567811'', ''USA'')])
   = (200,
      [(''ABCDEFG1234567811'', ''Pending'', ''VerificationSubmitPending''),
       (''ABCDEFG1234567812'', ''Pending'', ''VerificationSubmitPending''),
       (''ABCDEFG1234567811'', ''Pending'', ''VerificationSubmitPending'')],
      [StoreLookup [''ABCDEFG1234567811'', ''ABCDEFG1234567812'', ''ABCDEFG1234567811''],
       Enqueue (VerifyArgs ''ABCDEFG1234567811'' ''USA''),
       UpsertVin (zeroVin ''ABCDEFG1234567811'' 0),
       Enqueue (VerifyArgs ''ABCDEFG1234567812'' ''USA''),
       UpsertVin (zeroVin ''ABCDEFG1234567812'' 0),
       Enqueue (VerifyArgs ''ABCDEFG1234567811'' ''USA''),
       UpsertVin (zeroVin ''ABCDEFG1234567811'' 0)],
      [zeroVin ''ABCDEFG1234567811'' 0, zeroVin ''ABCDEFG1234567812'' 0])
   \<and>
   GetVerificationStatusForVins
     \<lparr>EnableVendorTestMode = False, ctl_fault = NoFault, riverInsert = (\<lambda>j. True)\<rparr> []
     (Some [''ABCDEFG1234567811'', ''ABCDEFG1234567811''])
   = (400, [], [])"
  by (simp add: GetVerificationStatusForVins_def SubmitVerificationForVins_def isValidVin_def
      valid_A valid_B trim_A trim_B trim_USA Let_def GetVehiclesByVins_def indexVins_def
      canSubmitVerificationJob_def status_preds status_codes InsertOrUpdateVin_def
      unique_violation_def Upsert_def zeroVin_def GetDetailedStatus_def statusToString_def
      same_token_def null_NewInt64_def)

text \<open>
  A register request of an owned token for a VIN under which no row has its
  \<open>external_id\<close>: the answer is 500 and the store is unchanged, whatever the store
  holds for the VIN itself.
\<close>

lemma RegisterVehicle_no_external_id:
  assumes "walletAddress env = Some wallet"
    and "length vinS = 17"
    and "FetchVehicleByTokenID env tokenID = Inr iv"
    and "TokenID iv \<noteq> 0" and "Owner iv = wallet"
    and "find (\<lambda>row. ValidS (ExternalID row) \<and> String (ExternalID row) = vinS) db = None"
  shows "RegisterVehicle env db (Some vinS) (Some tokenID) = (500, db)"
  using assms
  by (simp add: RegisterVehicle_def GetVehicleByExternalID_def errors_Is_def Let_def)

text \<open>
  C5 (the code at the failing input). The caller owns token 7 and registers a VIN that
  the store does not know: the handler answers 500 and stores nothing, because the
  lookup \<open>GetVehicleByExternalID\<close> reports a missing row with an error that is not
  \<open>ErrVehicleNotFound\<close>. With a stored record that links the VIN to token 5 the answer
  is 500 as well, not 409: the lookup is on \<open>external_id\<close>, not on the VIN.
\<close>

theorem RegisterVehicle_unknown_vin:
  "RegisterVehicle
     \<lparr>walletAddress = Some ''0xAb5801a7D398351b8bE11C439e05C5B3259aeC9B'',
      FetchVehicleByTokenID =
        (\<lambda>t. Inr \<lparr>TokenID = t, Owner = ''0xAb5801a7D398351b8bE11C439e05C5B3259aeC9B'',
                   SyntheticDevice_TokenID = 0, Definition_ID = ''''\<rparr>),
      reg_fault = NoFault\<rparr>
     [] (Some ''1FTFW1ET5DFA12345'') (Some 7)
   = (500, [])
   \<and>
   RegisterVehicle
     \<lparr>walletAddress = Some ''0xAb5801a7D398351b8bE11C439e05C5B3259aeC9B'',
      FetchVehicleByTokenID =
        (\<lambda>t. Inr \<lparr>TokenID = t, Owner = ''0xAb5801a7D398351b8bE11C439e05C5B3259aeC9B'',
                   SyntheticDevice_TokenID = 0, Definition_ID = ''''\<rparr>),
      reg_fault = NoFault\<rparr>
     [(zeroVin ''1FTFW1ET5DFA12345'' 23)\<lparr>VehicleTokenID := null_Int64From 5\<rparr>]
     (Some ''1FTFW1ET5DFA12345'') (Some 7)
   = (500, [(zeroVin ''1FTFW1ET5DFA12345'' 23)\<lparr>VehicleTokenID := null_Int64From 5\<rparr>])"
  by (simp add: RegisterVehicle_def GetVehicleByExternalID_def errors_Is_def Let_def
      zeroVin_def null_String_null_def)

subsection \<open>SD wallets\<close>

text \<open>
  C8. For an index of at least \<open>2^31\<close>, \<open>SignHash\<close> and \<open>GetAddress\<close> return an error.
  For an index below \<open>2^31\<close> and a 32-byte hash, when the key derivation succeeds and
  \<open>crypto.Sign\<close> gives its 65-byte signature \<open>r \<parallel> s \<parallel> v\<close> with recovery id \<open>v\<close> 0 or 1,
  \<open>SignHash\<close> returns that signature with the last byte incremented by 27: 65 bytes, the
  first 64 unchanged, the last one 27 or 28.
\<close>

theorem SignHash_signature:
  "(HardenedKeyStart \<le> index \<longrightarrow>
      SignHash lib hash index = Returned (Inl (Err ''child_number >= 2^31'')) \<and>
      GetAddress lib index = Returned (Inl (Err ''child_number >= 2^31'')))
   \<and>
   (index < HardenedKeyStart \<and> length hash = 32 \<and>
    Derive lib (HardenedKeyStart + index) = Inr childKey \<and>
    ECPrivKey lib childKey = Inr pk \<and> ToECDSA lib pk = Inr ecPk \<and>
    crypto_Sign lib hash ecPk = Inr sig \<and> length sig = 65 \<and>
    (sig ! 64 = 0 \<or> sig ! 64 = 1) \<longrightarrow>
      SignHash lib hash index = Returned (Inr (sig[64 := sig ! 64 + 27])) \<and>
      length (sig[64 := sig ! 64 + 27]) = 65 \<and>
      take 64 (sig[64 := sig ! 64 + 27]) = take 64 sig \<and>
      (sig[64 := sig ! 64 + 27]) ! 64 = sig ! 64 + 27 \<and>
      ((sig[64 := sig ! 64 + 27]) ! 64 = 27 \<or> (sig[64 := sig ! 64 + 27]) ! 64 = 28))"
  by (auto simp add: SignHash_def GetAddress_def getPrivateKey_def)

theorem SignHash_signature_witness:
  "SignHash
     \<lparr>Derive = (\<lambda>n. Inr n), ECPrivKey = (\<lambda>k. Inr (replicate 32 (0x2A :: 8 word))),
      ToECDSA = (\<lambda>b. Inr b),
      crypto_Sign = (\<lambda>h p. Inr (replicate 64 (0x11 :: 8 word) @ [1])),
      PubkeyToAddress = (\<lambda>p. replicate 20 (0 :: 8 word))\<rparr>
     (replicate 32 0xAB) 5
   = Returned (Inr (replicate 64 0x11 @ [28]))
   \<and>
   SignHash
     \<lparr>Derive = (\<lambda>n. Inr n), ECPrivKey = (\<lambda>k. Inr (replicate 32 (0x2A :: 8 word))),
      ToECDSA = (\<lambda>b. Inr b),
      crypto_Sign = (\<lambda>h p. Inr (replicate 64 (0x11 :: 8 word) @ [1])),
      PubkeyToAddress = (\<lambda>p. replicate 20 (0 :: 8 word))\<rparr>
     (replicate 32 0xAB) 0x80000000
   = Returned (Inl (Err ''child_number >= 2^31''))
   \<and>
   GetAddress
     \<lparr>Derive = (\<lambda>n. Inr n), ECPrivKey = (\<lambda>k. Inr (replicate 32 (0x2A :: 8 word))),
      ToECDSA = (\<lambda>b. Inr b),
      crypto_Sign = (\<lambda>h p. Inr (replicate 64 (0x11 :: 8 word) @ [1])),
      PubkeyToAddress = (\<lambda>p. replicate 20 (0 :: 8 word))\<rparr>
     0xFFFFFFFF
   = Returned (Inl (Err ''child_number >= 2^31''))"
  using SignHash_signature
     [of 5 "\<lparr>Derive = (\<lambda>n. Inr n), ECPrivKey = (\<lambda>k. Inr (replicate 32 (0x2A :: 8 word))),
      ToECDSA = (\<lambda>b. Inr b),
      crypto_Sign = (\<lambda>h p. Inr (replicate 64 (0x11 :: 8 word) @ [1])),
      PubkeyToAddress = (\<lambda>p. replicate 20 (0 :: 8 word))\<rparr>" "replicate 32 0xAB"
      "HardenedKeyStart + 5" "replicate 32 0x2A" "replicate 32 0x2A" "replicate 64 0x11 @ [1]"]
    SignHash_signature
     [of "0x80000000" "\<lparr>Derive = (\<lambda>n. Inr n), ECPrivKey = (\<lambda>k. Inr (replicate 32 (0x2A :: 8 word))),
      ToECDSA = (\<lambda>b. Inr b),
      crypto_Sign = (\<lambda>h p. Inr (replicate 64 (0x11 :: 8 word) @ [1])),
      PubkeyToAddress = (\<lambda>p. replicate 20 (0 :: 8 word))\<rparr>" "replicate 32 0xAB"]
    SignHash_signature
     [of "0xFFFFFFFF" "\<lparr>Derive = (\<lambda>n. Inr n), ECPrivKey = (\<lambda>k. Inr (replicate 32 (0x2A :: 8 word))),
      ToECDSA = (\<lambda>b. Inr b),
      crypto_Sign = (\<lambda>h p. Inr (replicate 64 (0x11 :: 8 word) @ [1])),
      PubkeyToAddress = (\<lambda>p. replicate 20 (0 :: 8 word))\<rparr>" "replicate 32 0xAB"]
  by (simp add: HardenedKeyStart_def nth_append list_update_append)

subsection \<open>Telemetry forwarder\<close>

text \<open>
  C9 (as stated). The store's record of the VIN has no vehicle token id (the vehicle was
  burned, status 103), but the cache still holds the copy memoized while the vehicle was
  minted. The handler uses the memoized copy, so the event is stamped and forwarded
  instead of being dropped.
\<close>

theorem HandleDeviceByVIN_stale_cache_counterexample:
  "map_option (\<lambda>r. Int64 (VehicleTokenID r)) (One_by_vin ''1FTFW1ET5DFA12345'' [zeroVin ''1FTFW1ET5DFA12345'' 103]) = Some 0
   \<and> fst (HandleDeviceByVIN
      \<lparr>ChainID = 137, SyntheticNftAddress = ''0xSD'', VehicleNftAddress = ''0xVEH'',
       fwd_fault = NoFault, LoadSignalMap_fails = False,
       NFTDID_String = (\<lambda>d. did_ContractAddress d),
       SendToDimoNode = (\<lambda>ce. Inr 200)\<rparr>
      [''1FTFW1ET5DFA12345'' \<mapsto> (zeroVin ''1FTFW1ET5DFA12345'' 53)\<lparr>VehicleTokenID := null_Int64From 101, SyntheticTokenID := null_Int64From 202\<rparr>]
      [zeroVin ''1FTFW1ET5DFA12345'' 103]
      (Decoded
               \<lparr>ID = ''evt-1'', ceType = ''dimo.status'',
                Data = Some (JObject [(''vin'', JString ''1FTFW1ET5DFA12345''),
                                      (''signals'', JArray [JObject [(''name'', JString ''speed'')]])]),
                Producer = [], Subject = []\<rparr>)) = None
   \<and> snd (snd (HandleDeviceByVIN
      \<lparr>ChainID = 137, SyntheticNftAddress = ''0xSD'', VehicleNftAddress = ''0xVEH'',
       fwd_fault = NoFault, LoadSignalMap_fails = False,
       NFTDID_String = (\<lambda>d. did_ContractAddress d),
       SendToDimoNode = (\<lambda>ce. Inr 200)\<rparr>
      [''1FTFW1ET5DFA12345'' \<mapsto> (zeroVin ''1FTFW1ET5DFA12345'' 53)\<lparr>VehicleTokenID := null_Int64From 101, SyntheticTokenID := null_Int64From 202\<rparr>]
      [zeroVin ''1FTFW1ET5DFA12345'' 103]
      (Decoded
               \<lparr>ID = ''evt-1'', ceType = ''dimo.status'',
                Data = Some (JObject [(''vin'', JString ''1FTFW1ET5DFA12345''),
                                      (''signals'', JArray [JObject [(''name'', JString ''speed'')]])]),
                Producer = [], Subject = []\<rparr>)))
       = [\<lparr>ID = ''evt-1'', ceType = ''dimo.status'',
                Data = Some (JObject [(''vin'', JString ''1FTFW1ET5DFA12345''),
                                      (''signals'', JArray [JObject [(''name'', JString ''speed'')]])]),
                Producer = ''0xSD'', Subject = ''0xVEH''\<rparr>]"
  by (simp add: HandleDeviceByVIN_def decodeMessage_def ParseCloudEvent_def unmarshal_map_def
      validateSignals_def ValidateSignals_def is_JObject_def HandleSendToDIS_def
      SetProducerAndSubject_def One_by_vin_def zeroVin_def null_Int64From_def null_NewInt64_def
      Let_def)

text \<open>
  C9 (amended). For a message that passes every check before the lookup: if the cache
  holds no copy for its VIN and the store holds no record, the handler returns an error
  and forwards nothing; if the record it looks up (the memoized copy when there is one,
  otherwise the record read from the store) has vehicle token id 0, it returns success
  and forwards nothing.
\<close>

theorem HandleDeviceByVIN_lookup:
  assumes "decodeMessage env msg = Inr (cloudEvent, vin)"
  shows "(cache vin = None \<and> One_by_vin vin db = None \<longrightarrow>
            fst (HandleDeviceByVIN env cache db msg) \<noteq> None \<and>
            snd (snd (HandleDeviceByVIN env cache db msg)) = [])
       \<and> (\<forall>vehicle.
            (cache vin = Some vehicle \<or>
             (cache vin = None \<and> GetVehicleByVin (fwd_fault env) db vin = Inr vehicle)) \<and>
            Int64 (VehicleTokenID vehicle) = 0 \<longrightarrow>
            fst (HandleDeviceByVIN env cache db msg) = None \<and>
            snd (snd (HandleDeviceByVIN env cache db msg)) = [])"
  using assms
  by (auto simp add: HandleDeviceByVIN_def GetVehicleByVin_def)

theorem HandleDeviceByVIN_lookup_witness:
  "fst (HandleDeviceByVIN
      \<lparr>ChainID = 137, SyntheticNftAddress = ''0xSD'', VehicleNftAddress = ''0xVEH'',
       fwd_fault = NoFault, LoadSignalMap_fails = False,
       NFTDID_String = (\<lambda>d. did_ContractAddress d),
       SendToDimoNode = (\<lambda>ce. Inr 200)\<rparr>
      Map.empty
      []
      (Decoded
               \<lparr>ID = ''evt-1'', ceType = ''dimo.status'',
                Data = Some (JObject [(''vin'', JString ''1FTFW1ET5DFA12345''),
                                      (''signals'', JArray [JObject [(''name'', JString ''speed'')]])]),
                Producer = [], Subject = []\<rparr>)) = Some ErrVehicleNotFound
   \<and> snd (snd (HandleDeviceByVIN
      \<lparr>ChainID = 137, SyntheticNftAddress = ''0xSD'', VehicleNftAddress = ''0xVEH'',
       fwd_fault = NoFault, LoadSignalMap_fails = False,
       NFTDID_String = (\<lambda>d. did_ContractAddress d),
       SendToDimoNode = (\<lambda>ce. Inr 200)\<rparr>
      Map.empty
      []
      (Decoded
               \<lparr>ID = ''evt-1'', ceType = ''dimo.status'',
                Data = Some (JObject [(''vin'', JString ''1FTFW1ET5DFA12345''),
                                      (''signals'', JArray [JObject [(''name'', JString ''speed'')]])]),
                Producer = [], Subject = []\<rparr>))) = []
   \<and> fst (HandleDeviceByVIN
      \<lparr>ChainID = 137, SyntheticNftAddress = ''0xSD'', VehicleNftAddress = ''0xVEH'',
       fwd_fault = NoFault, LoadSignalMap_fails = False,
       NFTDID_String = (\<lambda>d. did_ContractAddress d),
       SendToDimoNode = (\<lambda>ce. Inr 200)\<rparr>
      Map.empty
      [zeroVin ''1FTFW1ET5DFA12345'' 23]
      (Decoded
               \<lparr>ID = ''evt-1'', ceType = ''dimo.status'',
                Data = Some (JObject [(''vin'', JString ''1FTFW1ET5DFA12345''),
                                      (''signals'', JArray [JObject [(''name'', JString ''speed'')]])]),
                Producer = [], Subject = []\<rparr>)) = None
   \<and> snd (snd (HandleDeviceByVIN
      \<lparr>ChainID = 137, SyntheticNftAddress = ''0xSD'', VehicleNftAddress = ''0xVEH'',
       fwd_fault = NoFault, LoadSignalMap_fails = False,
       NFTDID_String = (\<lambda>d. did_ContractAddress d),
       SendToDimoNode = (\<lambda>ce. Inr 200)\<rparr>
      Map.empty
      [zeroVin ''1FTFW1ET5DFA12345'' 23]
      (Decoded
               \<lparr>ID = ''evt-1'', ceType = ''dimo.status'',
                Data = Some (JObject [(''vin'', JString ''1FTFW1ET5DFA12345''),
                                      (''signals'', JArray [JObject [(''name'', JString ''speed'')]])]),
                Producer = [], Subject = []\<rparr>))) = []"
  using HandleDeviceByVIN_lookup
          [of "\<lparr>ChainID = 137, SyntheticNftAddress = ''0xSD'', VehicleNftAddress = ''0xVEH'',
       fwd_fault = NoFault, LoadSignalMap_fails = False,
       NFTDID_String = (\<lambda>d. did_ContractAddress d),
       SendToDimoNode = (\<lambda>ce. Inr 200)\<rparr>"
              "(Decoded
               \<lparr>ID = ''evt-1'', ceType = ''dimo.status'',
                Data = Some (JObject [(''vin'', JString ''1FTFW1ET5DFA12345''),
                                      (''signals'', JArray [JObject [(''name'', JString ''speed'')]])]),
                Producer = [], Subject = []\<rparr>)"
              "\<lparr>ID = ''evt-1'', ceType = ''dimo.status'',
                Data = Some (JObject [(''vin'', JString ''1FTFW1ET5DFA12345''),
                                      (''signals'', JArray [JObject [(''name'', JString ''speed'')]])]),
                Producer = [], Subject = []\<rparr>"
              "''1FTFW1ET5DFA12345''" Map.empty "[]"]
        HandleDeviceByVIN_lookup
          [of "\<lparr>ChainID = 137, SyntheticNftAddress = ''0xSD'', VehicleNftAddress = ''0xVEH'',
       fwd_fault = NoFault, LoadSignalMap_fails = False,
       NFTDID_String = (\<lambda>d. did_ContractAddress d),
       SendToDimoNode = (\<lambda>ce. Inr 200)\<rparr>"
              "(Decoded
               \<lparr>ID = ''evt-1'', ceType = ''dimo.status'',
                Data = Some (JObject [(''vin'', JString ''1FTFW1ET5DFA12345''),
                                      (''signals'', JArray [JObject [(''name'', JString ''speed'')]])]),
                Producer = [], Subject = []\<rparr>)"
              "\<lparr>ID = ''evt-1'', ceType = ''dimo.status'',
                Data = Some (JObject [(''vin'', JString ''1FTFW1ET5DFA12345''),
                                      (''signals'', JArray [JObject [(''name'', JString ''speed'')]])]),
                Producer = [], Subject = []\<rparr>"
              "''1FTFW1ET5DFA12345''" Map.empty "[zeroVin ''1FTFW1ET5DFA12345'' 23]"]
  by (simp add: decodeMessage_def ParseCloudEvent_def unmarshal_map_def
      validateSignals_def ValidateSignals_def is_JObject_def GetVehicleByVin_def
      One_by_vin_def zeroVin_def null_NewInt64_def HandleDeviceByVIN_def)

end
